theory Spec2Isabelle
  imports Main
begin

section \<open>Values of the host language\<close>

text \<open>
  The gateway (\<^verbatim>\<open>src/api/src/index.mjs\<close>) handles values that arrive as parsed JSON
  (request bodies, tool schemas, tool arguments) and values that tool code returns or
  throws. \<open>JObj\<close> lists the own enumerable properties of an ordinary object in the
  order they were created; \<open>JError n m\<close> is an \<^verbatim>\<open>Error\<close> instance of class \<open>n\<close> with
  message \<open>m\<close>; \<open>JBuiltin k\<close> is the member \<open>k\<close> that every ordinary object inherits
  from \<^verbatim>\<open>Object.prototype\<close>. Numbers are the integral ones.
\<close>

datatype jsval =
    JUndefined
  | JNull
  | JBool bool
  | JNum int
  | JStr string
  | JArr "jsval list"
  | JObj "(string \<times> jsval) list"
  | JError string string
  | JBuiltin string

text \<open>What \<^verbatim>\<open>!x\<close> and \<^verbatim>\<open>x || y\<close> test.\<close>

fun truthy :: "jsval \<Rightarrow> bool" where
  "truthy JUndefined = False"
| "truthy JNull = False"
| "truthy (JBool b) = b"
| "truthy (JNum n) = (n \<noteq> 0)"
| "truthy (JStr s) = (s \<noteq> [])"
| "truthy (JArr xs) = True"
| "truthy (JObj ps) = True"
| "truthy (JError n m) = True"
| "truthy (JBuiltin k) = True"

definition TypeError :: "string \<Rightarrow> jsval" where
  "TypeError m = JError ''TypeError'' m"

definition cannot_read :: "string \<Rightarrow> string \<Rightarrow> string" where
  "cannot_read what k =
     ''Cannot read properties of '' @ what @ '' (reading '' @ [CHR 0x27] @ k @ [CHR 0x27] @ '')''"

text \<open>
  Reading a property of an ordinary object: an own property first, then the members
  of \<^verbatim>\<open>Object.prototype\<close>, then \<^verbatim>\<open>undefined\<close>.
\<close>

definition Object_prototype_names :: "string list" where
  "Object_prototype_names =
     [''constructor'', ''__defineGetter__'', ''__defineSetter__'', ''hasOwnProperty'',
      ''__lookupGetter__'', ''__lookupSetter__'', ''isPrototypeOf'',
      ''propertyIsEnumerable'', ''toString'', ''valueOf'', ''__proto__'',
      ''toLocaleString'']"

definition get_property :: "(string \<times> jsval) list \<Rightarrow> string \<Rightarrow> jsval" where
  "get_property ps k =
     (case map_of ps k of
        Some v \<Rightarrow> v
      | None \<Rightarrow> if k \<in> set Object_prototype_names then JBuiltin k else JUndefined)"

text \<open>\<^verbatim>\<open>e.message\<close> in the catch clause of \<^verbatim>\<open>onExecute\<close>, for any thrown value.\<close>

fun message_of :: "jsval \<Rightarrow> jsval + jsval" where
  "message_of JUndefined = Inl (TypeError (cannot_read ''undefined'' ''message''))"
| "message_of JNull = Inl (TypeError (cannot_read ''null'' ''message''))"
| "message_of (JObj ps) = Inr (get_property ps ''message'')"
| "message_of (JError n m) = Inr (JStr m)"
| "message_of (JBool b) = Inr JUndefined"
| "message_of (JNum n) = Inr JUndefined"
| "message_of (JStr s) = Inr JUndefined"
| "message_of (JArr xs) = Inr JUndefined"
| "message_of (JBuiltin k) = Inr JUndefined"

text \<open>\<^verbatim>\<open>parameters?.properties\<close>: no prototype has a member of that name.\<close>

fun optional_properties :: "jsval \<Rightarrow> jsval" where
  "optional_properties (JObj ps) = get_property ps ''properties''"
| "optional_properties v = JUndefined"

subsection \<open>Decimal numerals and the order of own keys\<close>

fun decimal :: "nat \<Rightarrow> string" where
  "decimal n =
     (if n < 10 then [char_of (48 + n)]
      else decimal (n div 10) @ [char_of (48 + n mod 10)])"

declare decimal.simps [simp del]

definition is_digit :: "char \<Rightarrow> bool" where
  "is_digit c = (48 \<le> (of_char c :: nat) \<and> (of_char c :: nat) \<le> 57)"

definition index_value :: "string \<Rightarrow> nat" where
  "index_value s = foldl (\<lambda>n c. 10 * n + (of_char c - 48)) 0 s"

text \<open>
  An array index is the canonical decimal numeral of an integer below \<open>2^32 - 1\<close>.
  \<^verbatim>\<open>Object.keys\<close> lists such keys first, in ascending numeric order, and the other
  keys after them in creation order.
\<close>

definition is_array_index :: "string \<Rightarrow> bool" where
  "is_array_index s =
     (s \<noteq> [] \<and> list_all is_digit s \<and> (length s = 1 \<or> hd s \<noteq> CHR ''0'')
      \<and> index_value s < 4294967295)"

definition own_enumerable :: "(string \<times> 'a) list \<Rightarrow> (string \<times> 'a) list" where
  "own_enumerable ps =
     sort_key (\<lambda>p. index_value (fst p)) (filter (\<lambda>p. is_array_index (fst p)) ps)
     @ filter (\<lambda>p. \<not> is_array_index (fst p)) ps"

fun Object_keys :: "jsval \<Rightarrow> jsval + string list" where
  "Object_keys JUndefined = Inl (TypeError ''Cannot convert undefined or null to object'')"
| "Object_keys JNull = Inl (TypeError ''Cannot convert undefined or null to object'')"
| "Object_keys (JObj ps) = Inr (map fst (own_enumerable ps))"
| "Object_keys (JArr xs) = Inr (map decimal [0..<length xs])"
| "Object_keys (JStr s) = Inr (map decimal [0..<length s])"
| "Object_keys (JBool b) = Inr []"
| "Object_keys (JNum n) = Inr []"
| "Object_keys (JError n m) = Inr []"
| "Object_keys (JBuiltin k) = Inr []"

subsection \<open>Joining and JSON text\<close>

text \<open>\<^verbatim>\<open>Array.prototype.join\<close> on strings.\<close>

fun join :: "string \<Rightarrow> string list \<Rightarrow> string" where
  "join sep [] = []"
| "join sep [x] = x"
| "join sep (x # y # ys) = x @ sep @ join sep (y # ys)"

definition hex_digit :: "nat \<Rightarrow> char" where
  "hex_digit n = (if n < 10 then char_of (48 + n) else char_of (87 + n))"

definition json_escape :: "char \<Rightarrow> string" where
  "json_escape c =
     (if c = CHR 0x22 then [CHR 0x5C, CHR 0x22]
      else if c = CHR 0x5C then [CHR 0x5C, CHR 0x5C]
      else if c = CHR 0x08 then [CHR 0x5C, CHR ''b'']
      else if c = CHR 0x0C then [CHR 0x5C, CHR ''f'']
      else if c = CHR 0x0A then [CHR 0x5C, CHR ''n'']
      else if c = CHR 0x0D then [CHR 0x5C, CHR ''r'']
      else if c = CHR 0x09 then [CHR 0x5C, CHR ''t'']
      else if (of_char c :: nat) < 32
        then [CHR 0x5C, CHR ''u'', CHR ''0'', CHR ''0'',
              hex_digit (of_char c div 16), hex_digit (of_char c mod 16)]
      else [c])"

definition json_quote :: "string \<Rightarrow> string" where
  "json_quote s = [CHR 0x22] @ concat (map json_escape s) @ [CHR 0x22]"

definition show_int :: "int \<Rightarrow> string" where
  "show_int i = (if i < 0 then ''-'' @ decimal (nat (- i)) else decimal (nat i))"

text \<open>
  \<^verbatim>\<open>JSON.stringify\<close>: \<open>None\<close> is the result \<^verbatim>\<open>undefined\<close>. A property whose value
  has no JSON text is left out of an object and written \<^verbatim>\<open>null\<close> in an array. An
  \<^verbatim>\<open>Error\<close> has no enumerable property of its own; of the inherited members only
  \<^verbatim>\<open>__proto__\<close> is not a function.
\<close>

fun JSON_stringify :: "jsval \<Rightarrow> string option"
  and stringify_elements :: "jsval list \<Rightarrow> string list"
  and stringify_members :: "(string \<times> jsval) list \<Rightarrow> (string \<times> string) list"
where
  "JSON_stringify JUndefined = None"
| "JSON_stringify JNull = Some ''null''"
| "JSON_stringify (JBool b) = Some (if b then ''true'' else ''false'')"
| "JSON_stringify (JNum n) = Some (show_int n)"
| "JSON_stringify (JStr s) = Some (json_quote s)"
| "JSON_stringify (JArr xs) = Some (''['' @ join '','' (stringify_elements xs) @ '']'')"
| "JSON_stringify (JObj ps) =
     Some (''{'' @ join '','' (map (\<lambda>(k, t). json_quote k @ '':'' @ t)
                                (own_enumerable (stringify_members ps))) @ ''}'')"
| "JSON_stringify (JError n m) = Some ''{}''"
| "JSON_stringify (JBuiltin k) = (if k = ''__proto__'' then Some ''{}'' else None)"
| "stringify_elements [] = []"
| "stringify_elements (x # xs) =
     (case JSON_stringify x of None \<Rightarrow> ''null'' | Some t \<Rightarrow> t) # stringify_elements xs"
| "stringify_members [] = []"
| "stringify_members (p # ps) =
     (case JSON_stringify (snd p) of
        None \<Rightarrow> stringify_members ps
      | Some t \<Rightarrow> (fst p, t) # stringify_members ps)"

section \<open>The Dynamic Tool Compiler: \<^verbatim>\<open>addLocalTool\<close>\<close>

subsection \<open>The synthesized function\<close>

text \<open>
  \<^verbatim>\<open>addLocalTool\<close> writes the header of an async function whose parameter list is the
  text \<^verbatim>\<open>requestedParameters.join(", ")\<close> between two blanks, pastes the code after
  it, and hands the one text to \<^verbatim>\<open>new Function\<close>. The host reads a parameter list by
  splitting it at commas. The embedding covers the lists whose pieces are plain
  identifiers (ASCII, not a reserved word of either mode), for which
  \<open>formal_parameters\<close> gives the names, and the lists of distinct parameters in which
  some pieces also give the parameter a default value that is a decimal numeral
  (\<^verbatim>\<open>x = 5\<close>), for which \<open>default_parameters\<close> gives the names and the defaults. For any other list the host
  throws a \<^verbatim>\<open>SyntaxError\<close> or builds a function with other binding forms (other
  default values, rest parameters, patterns), which are not embedded. The code is
  taken to be the body of the function: a code text that closes the function and
  goes on is not embedded.
\<close>

fun split_commas :: "string \<Rightarrow> string list" where
  "split_commas [] = [[]]"
| "split_commas (c # cs) =
     (if c = CHR '','' then [] # split_commas cs
      else (case split_commas cs of [] \<Rightarrow> [[c]] | p # ps \<Rightarrow> (c # p) # ps))"

definition is_space :: "char \<Rightarrow> bool" where
  "is_space c = (c \<in> set [CHR '' '', CHR 0x09, CHR 0x0A, CHR 0x0B, CHR 0x0C, CHR 0x0D])"

definition trim :: "string \<Rightarrow> string" where
  "trim s = rev (dropWhile is_space (rev (dropWhile is_space s)))"

definition is_letter :: "char \<Rightarrow> bool" where
  "is_letter c =
     ((65 \<le> (of_char c :: nat) \<and> (of_char c :: nat) \<le> 90)
      \<or> (97 \<le> (of_char c :: nat) \<and> (of_char c :: nat) \<le> 122))"

definition identifier_start :: "char \<Rightarrow> bool" where
  "identifier_start c = (is_letter c \<or> c = CHR ''_'' \<or> c = CHR ''$'')"

definition identifier_part :: "char \<Rightarrow> bool" where
  "identifier_part c = (identifier_start c \<or> is_digit c)"

definition reserved_words :: "string list" where
  "reserved_words =
     [''break'', ''case'', ''catch'', ''class'', ''const'', ''continue'', ''debugger'',
      ''default'', ''delete'', ''do'', ''else'', ''enum'', ''export'', ''extends'',
      ''false'', ''finally'', ''for'', ''function'', ''if'', ''import'', ''in'',
      ''instanceof'', ''new'', ''null'', ''return'', ''super'', ''switch'', ''this'',
      ''throw'', ''true'', ''try'', ''typeof'', ''var'', ''void'', ''while'', ''with'',
      ''await'', ''yield'', ''let'', ''static'', ''implements'', ''interface'',
      ''package'', ''private'', ''protected'', ''public'', ''eval'', ''arguments'']"

definition is_identifier :: "string \<Rightarrow> bool" where
  "is_identifier s =
     (case s of
        [] \<Rightarrow> False
      | c # cs \<Rightarrow> identifier_start c \<and> list_all identifier_part cs
                 \<and> s \<notin> set reserved_words)"

definition formal_parameters :: "string \<Rightarrow> string list option" where
  "formal_parameters txt =
     (let pieces = map trim (split_commas txt)
      in if pieces = [[]] then Some []
         else if list_all is_identifier pieces then Some pieces
         else None)"

text \<open>
  A piece \<^verbatim>\<open>x = n\<close> of a parameter list: the parameter \<open>x\<close> with the default value
  \<open>n\<close>, a canonical decimal numeral below \<open>2^32 - 1\<close>.
\<close>

definition numeral_value :: "string \<Rightarrow> int" where
  "numeral_value s = foldl (\<lambda>n c. 10 * n + (of_char c - 48)) 0 s"

definition parameter_with_default :: "string \<Rightarrow> (string \<times> jsval option) option" where
  "parameter_with_default piece =
     (if is_identifier piece then Some (piece, None)
      else
        let lhs = trim (takeWhile (\<lambda>c. c \<noteq> CHR ''='') piece);
            rhs = trim (drop 1 (dropWhile (\<lambda>c. c \<noteq> CHR ''='') piece))
        in if is_identifier lhs \<and> is_array_index rhs
           then Some (lhs, Some (JNum (numeral_value rhs)))
           else None)"

fun all_parameters :: "'a option list \<Rightarrow> 'a list option" where
  "all_parameters [] = Some []"
| "all_parameters (None # ps) = None"
| "all_parameters (Some p # ps) =
     (case all_parameters ps of None \<Rightarrow> None | Some qs \<Rightarrow> Some (p # qs))"

definition default_parameters :: "string \<Rightarrow> (string \<times> jsval option) list option" where
  "default_parameters txt =
     (case all_parameters (map (\<lambda>piece. parameter_with_default (trim piece)) (split_commas txt)) of
        None \<Rightarrow> None
      | Some ps \<Rightarrow> if distinct (map fst ps) then Some ps else None)"

text \<open>
  A call of an async function gives a promise, which is fulfilled with the value the
  body returns, rejected with the value it throws, or never settled.
\<close>

datatype promise = Fulfilled jsval | Rejected jsval | Pending

text \<open>
  A function body is given by what it does once its parameters are bound. The host is
  what the engine makes of the text \<^verbatim>\<open>${code}\<close> as the body of an async function with
  the given formal parameters: \<open>Inl\<close> the \<^verbatim>\<open>SyntaxError\<close> that \<^verbatim>\<open>new Function\<close>
  throws, \<open>Inr\<close> the behaviour of the body.
\<close>

type_synonym body = "(string \<times> jsval) list \<Rightarrow> promise"

type_synonym host = "string list \<Rightarrow> jsval \<Rightarrow> jsval + body"

datatype callable = Callable (formals: "string list") (behaviour: body)

text \<open>
  The outcome of a synchronous step of the gateway: done with a value, a thrown
  value, or a call of the host outside the embedding.
\<close>

datatype 'a result = Done 'a | Thrown jsval | Unembedded

text \<open>
  A parameter with a default value is bound to the default when the value passed for
  it is \<^verbatim>\<open>undefined\<close>.
\<close>

definition bind_defaults :: "(string \<times> jsval option) list \<Rightarrow> body \<Rightarrow> body" where
  "bind_defaults ps b env =
     b (map (\<lambda>(x, v).
              (x, if v = JUndefined
                  then (case map_of ps x of Some (Some d) \<Rightarrow> d | Some None \<Rightarrow> v | None \<Rightarrow> v)
                  else v))
          env)"

definition new_Function :: "host \<Rightarrow> string list \<Rightarrow> jsval \<Rightarrow> callable result" where
  "new_Function h requestedParameters code =
     (case formal_parameters ('' '' @ join '', '' requestedParameters @ '' '') of
        None \<Rightarrow>
          (case default_parameters ('' '' @ join '', '' requestedParameters @ '' '') of
             None \<Rightarrow> Unembedded
           | Some ps \<Rightarrow>
               (case h (map fst ps) code of
                  Inl e \<Rightarrow> Thrown e
                | Inr b \<Rightarrow> Done (Callable (map fst ps) (bind_defaults ps b))))
      | Some fs \<Rightarrow>
          (case h fs code of
             Inl e \<Rightarrow> Thrown e
           | Inr b \<Rightarrow> Done (Callable fs b)))"

text \<open>
  \<^verbatim>\<open>f.call(null).apply(null, values)\<close>: the values are bound to the formal parameters
  by position; a parameter beyond the values is \<^verbatim>\<open>undefined\<close>, a value beyond the
  parameters is bound to no name.
\<close>

definition bind :: "string list \<Rightarrow> jsval list \<Rightarrow> (string \<times> jsval) list" where
  "bind fs vs = zip fs (vs @ replicate (length fs - length vs) JUndefined)"

definition apply_callable :: "callable \<Rightarrow> jsval list \<Rightarrow> promise" where
  "apply_callable f vs = behaviour f (bind (formals f) vs)"

subsection \<open>\<^verbatim>\<open>onExecute\<close>\<close>

text \<open>
  The argument object a tool is invoked with: \<^verbatim>\<open>undefined\<close>, \<^verbatim>\<open>null\<close>, or an ordinary
  object (the parsed arguments of a tool call).
\<close>

datatype arguments = ArgUndefined | ArgNull | ArgObject "(string \<times> jsval) list"

fun read_argument :: "arguments \<Rightarrow> string \<Rightarrow> jsval + jsval" where
  "read_argument ArgUndefined p = Inl (TypeError (cannot_read ''undefined'' p))"
| "read_argument ArgNull p = Inl (TypeError (cannot_read ''null'' p))"
| "read_argument (ArgObject ps) p = Inr (get_property ps p)"

text \<open>\<^verbatim>\<open>requestedParameters.map(p => incomingArgs[p])\<close>, stopping at the first throw.\<close>

fun map_arguments :: "arguments \<Rightarrow> string list \<Rightarrow> jsval + jsval list" where
  "map_arguments a [] = Inr []"
| "map_arguments a (p # ps) =
     (case read_argument a p of
        Inl e \<Rightarrow> Inl e
      | Inr v \<Rightarrow> (case map_arguments a ps of Inl e \<Rightarrow> Inl e | Inr vs \<Rightarrow> Inr (v # vs)))"

text \<open>
  The catch clause returns \<^verbatim>\<open>JSON.stringify({success: false, errorMessage: e.message})\<close>;
  reading \<^verbatim>\<open>e.message\<close> may itself throw, and nothing catches that.
\<close>

definition catch_clause :: "jsval \<Rightarrow> promise" where
  "catch_clause e =
     (case message_of e of
        Inl t \<Rightarrow> Rejected t
      | Inr m \<Rightarrow>
          Fulfilled
            (case JSON_stringify (JObj [(''success'', JBool False), (''errorMessage'', m)]) of
               None \<Rightarrow> JUndefined
             | Some t \<Rightarrow> JStr t))"

text \<open>
  \<^verbatim>\<open>return await p\<close> inside the try block: the value of a fulfilled promise is
  returned, a rejection is caught, and a promise that never settles leaves the
  invocation pending.
\<close>

definition try_await :: "promise \<Rightarrow> promise" where
  "try_await p =
     (case p of
        Fulfilled v \<Rightarrow> Fulfilled v
      | Rejected e \<Rightarrow> catch_clause e
      | Pending \<Rightarrow> Pending)"

definition onExecute :: "string list \<Rightarrow> callable \<Rightarrow> arguments \<Rightarrow> promise" where
  "onExecute requestedParameters f incomingArgs =
     (case map_arguments incomingArgs requestedParameters of
        Inl e \<Rightarrow> catch_clause e
      | Inr vs \<Rightarrow> try_await (apply_callable f vs))"

subsection \<open>Tools and the Tool Registry\<close>

text \<open>
  Modelled from the spec: the \<^verbatim>\<open>Tool\<close> class (\<^verbatim>\<open>tool.mjs\<close>) and the \<^verbatim>\<open>ToolStore\<close>
  (\<^verbatim>\<open>toolStore.mjs\<close>) are not among the sources. A tool has a name, a description, a
  parameter schema, an origin (local, or the provider that contributed it) and an
  execution capability. The registry adds by inserting or replacing by name, in place,
  and fires "tool added" with the final tool; it removes by name if present and fires
  "tool removed" with the removed tool, and does nothing (no event) if absent.
\<close>

datatype origin = Local | Provider jsval

record tool =
  name :: jsval
  description :: jsval
  parameters :: jsval
  origin :: origin
  execute :: "arguments \<Rightarrow> promise"

datatype tool_event = ToolAdded tool | ToolRemoved tool

record toolStore =
  tools :: "tool list"
  fired :: "tool_event list"

definition addTool :: "tool \<Rightarrow> toolStore \<Rightarrow> toolStore" where
  "addTool t st =
     st\<lparr>tools :=
          (if list_ex (\<lambda>u. name u = name t) (tools st)
           then map (\<lambda>u. if name u = name t then t else u) (tools st)
           else tools st @ [t]),
        fired := fired st @ [ToolAdded t]\<rparr>"

definition removeToolByName :: "jsval \<Rightarrow> toolStore \<Rightarrow> toolStore" where
  "removeToolByName n st =
     (case find (\<lambda>u. name u = n) (tools st) of
        None \<Rightarrow> st
      | Some u \<Rightarrow>
          st\<lparr>tools := filter (\<lambda>t. name t \<noteq> n) (tools st),
             fired := fired st @ [ToolRemoved u]\<rparr>)"

subsection \<open>\<^verbatim>\<open>addLocalTool\<close>\<close>

text \<open>\<^verbatim>\<open>Object.keys(parameters?.properties || {})\<close>.\<close>

definition requestedParameters :: "jsval \<Rightarrow> jsval + string list" where
  "requestedParameters params =
     (let p = optional_properties params
      in Object_keys (if truthy p then p else JObj []))"

definition addLocalTool ::
  "host \<Rightarrow> jsval \<Rightarrow> jsval \<Rightarrow> jsval \<Rightarrow> jsval \<Rightarrow> toolStore \<Rightarrow> toolStore result" where
  "addLocalTool h nm descr code params st =
     (case requestedParameters params of
        Inl e \<Rightarrow> Thrown e
      | Inr rp \<Rightarrow>
          (case new_Function h rp code of
             Unembedded \<Rightarrow> Unembedded
           | Thrown e \<Rightarrow> Thrown e
           | Done f \<Rightarrow>
               Done (addTool \<lparr>name = nm, description = descr, parameters = params,
                              origin = Local, execute = onExecute rp f\<rparr> st)))"

text \<open>
  A sample body for the examples below: \<^verbatim>\<open>return [x1, ..., xn]\<close>, reading each
  variable from the bindings; a variable that is not bound is a \<^verbatim>\<open>ReferenceError\<close>.
\<close>

definition return_variables :: "string list \<Rightarrow> body" where
  "return_variables xs env =
     (case filter (\<lambda>x. map_of env x = None) xs of
        [] \<Rightarrow>
          Fulfilled
            (JArr (map (\<lambda>x. case map_of env x of Some v \<Rightarrow> v | None \<Rightarrow> JUndefined) xs))
      | x # ys \<Rightarrow> Rejected (JError ''ReferenceError'' (x @ '' is not defined'')))"

section \<open>The application state of \<^verbatim>\<open>index.mjs\<close>\<close>

subsection \<open>Messages\<close>

text \<open>
  A message has a role, a content, and optionally the id of the tool call it answers
  and a tool name. The content of a tool-result message is a value or one of the
  structured failures of the Orchestration Loop.
\<close>

datatype role = System | User | Assistant | ToolRole

datatype content = Text jsval | UnknownToolError jsval | ToolExecutionError jsval

record message =
  role :: role
  content :: content
  call_id :: "string option"
  tool_name :: "jsval option"

text \<open>What \<^verbatim>\<open>io.emit\<close> has sent to the connected observers.\<close>

datatype socket_event = NewMessageEvent message | MessagesEvent "message list"

text \<open>
  The callbacks that \<^verbatim>\<open>setupEventListeners\<close> registers on the message store:
  \<^verbatim>\<open>message => io.emit('newMessage', message)\<close>, \<^verbatim>\<open>() => io.emit('messages', [])\<close> and
  \<^verbatim>\<open>() => addSystemPrompt()\<close>.
\<close>

datatype new_message_listener = EmitNewMessage

datatype cleared_listener = EmitNoMessages | ReSeed

subsection \<open>Providers\<close>

text \<open>
  Modelled from the spec: the Provider Process Manager (\<^verbatim>\<open>mcpServer.mjs\<close>) is not among
  the sources. A provider has a unique name, a launch command with arguments, a
  process that is alive or terminated, and the tools it discovered. Its shutdown
  requests the termination of the process and waits for the exit; on a process that
  has already terminated it succeeds without error and requests nothing. \<open>None\<close> is
  "no error"; \<open>terminate_requests\<close> counts the terminations requested of the process.
\<close>

record provider =
  server_name :: jsval
  launch_command :: jsval
  launch_args :: jsval
  alive :: bool
  terminate_requests :: nat
  discovered :: "tool list"

definition shutdown :: "provider \<Rightarrow> jsval option \<times> provider" where
  "shutdown p =
     (if alive p
      then (None, p\<lparr>alive := False, terminate_requests := Suc (terminate_requests p)\<rparr>)
      else (None, p))"

datatype provider_event = ProviderAdded jsval | ProviderRemoved jsval

subsection \<open>The state\<close>

text \<open>
  The module-level objects of \<^verbatim>\<open>index.mjs\<close>: the configuration, the message store with
  its listeners, the tool store, the provider store, the socket, and whether the
  process has exited. \<open>shutdown_calls\<close> records, in order, the providers whose
  shutdown has been invoked.
\<close>

record app =
  apiKey :: jsval
  systemPrompt :: jsval
  model :: jsval
  endpoint :: jsval
  messages :: "message list"
  onNewMessage :: "new_message_listener list"
  onMessagesCleared :: "cleared_listener list"
  registry :: toolStore
  mcpServers :: "provider list"
  provider_events :: "provider_event list"
  shutdown_calls :: "jsval list"
  emitted :: "socket_event list"
  exited :: bool

section \<open>The Message Log\<close>

text \<open>
  Modelled from the spec: the \<^verbatim>\<open>MessageStore\<close> class (\<^verbatim>\<open>messageStore.mjs\<close>) is not among
  the sources. Appending adds the message to the end and notifies the "new message"
  observers synchronously with the appended value; clearing empties the log and
  notifies the "cleared" observers, in the order they were registered. What the
  observers do is \<^verbatim>\<open>index.mjs\<close>.
\<close>

fun notify_new_message :: "message \<Rightarrow> new_message_listener \<Rightarrow> app \<Rightarrow> app" where
  "notify_new_message m EmitNewMessage s = s\<lparr>emitted := emitted s @ [NewMessageEvent m]\<rparr>"

definition addMessage :: "message \<Rightarrow> app \<Rightarrow> app" where
  "addMessage m s =
     fold (notify_new_message m) (onNewMessage s) (s\<lparr>messages := messages s @ [m]\<rparr>)"

text \<open>\<^verbatim>\<open>addSystemPrompt\<close> of \<^verbatim>\<open>index.mjs\<close>.\<close>

definition addSystemPrompt :: "app \<Rightarrow> app" where
  "addSystemPrompt s =
     addMessage \<lparr>role = System, content = Text (systemPrompt s), call_id = None,
                 tool_name = None\<rparr> s"

fun notify_cleared :: "cleared_listener \<Rightarrow> app \<Rightarrow> app" where
  "notify_cleared EmitNoMessages s = s\<lparr>emitted := emitted s @ [MessagesEvent []]\<rparr>"
| "notify_cleared ReSeed s = addSystemPrompt s"

definition clearMessages :: "app \<Rightarrow> app" where
  "clearMessages s = fold notify_cleared (onMessagesCleared s) (s\<lparr>messages := []\<rparr>)"

text \<open>
  \<^verbatim>\<open>setupEventListeners\<close>, as far as the message store goes, and the callback of
  \<^verbatim>\<open>server.listen\<close>, which runs once before any request is served.
\<close>

definition setupEventListeners :: "app \<Rightarrow> app" where
  "setupEventListeners s =
     s\<lparr>onNewMessage := onNewMessage s @ [EmitNewMessage],
       onMessagesCleared := onMessagesCleared s @ [EmitNoMessages, ReSeed]\<rparr>"

definition on_listening :: "app \<Rightarrow> app" where
  "on_listening s = addSystemPrompt (setupEventListeners s)"

text \<open>
  The state when the module has been loaded: the configuration as constructed, empty
  stores, no listener.
\<close>

definition initial :: "jsval \<Rightarrow> jsval \<Rightarrow> app" where
  "initial key prompt =
     \<lparr>apiKey = key, systemPrompt = prompt, model = JStr ''gpt-4o'',
      endpoint = JStr ''https://api.openai.com/v1/chat/completions'',
      messages = [], onNewMessage = [], onMessagesCleared = [],
      registry = \<lparr>tools = [], fired = []\<rparr>, mcpServers = [], provider_events = [],
      shutdown_calls = [], emitted = [], exited = False\<rparr>"

definition listeners_wired :: "app \<Rightarrow> bool" where
  "listeners_wired s =
     (onNewMessage s = [EmitNewMessage] \<and> onMessagesCleared s = [EmitNoMessages, ReSeed])"

section \<open>The Provider Registry\<close>

text \<open>
  Modelled from the spec: the \<^verbatim>\<open>McpServerStore\<close> class (\<^verbatim>\<open>mcpServerStore.mjs\<close>) is not
  among the sources. Adding a provider stores it by name, registers every tool it
  discovered into the Tool Registry tagged with the provider's identity, and fires
  "provider added"; a provider whose name is already registered is rejected, the
  stores staying as they are. Removing by name looks the provider up, invokes its
  shutdown, removes every tool tagged with it from the Tool Registry, and fires
  "provider removed". The store's shutdown terminates every registered provider.
\<close>

definition addMcpServer :: "provider \<Rightarrow> app \<Rightarrow> app" where
  "addMcpServer p s =
     (if list_ex (\<lambda>q. server_name q = server_name p) (mcpServers s) then s
      else s\<lparr>mcpServers := mcpServers s @ [p],
             registry :=
               fold addTool (map (\<lambda>t. t\<lparr>origin := Provider (server_name p)\<rparr>) (discovered p))
                 (registry s),
             provider_events := provider_events s @ [ProviderAdded (server_name p)]\<rparr>)"

definition removeToolsOf :: "jsval \<Rightarrow> toolStore \<Rightarrow> toolStore" where
  "removeToolsOf n st =
     st\<lparr>tools := filter (\<lambda>t. origin t \<noteq> Provider n) (tools st),
        fired := fired st @ map ToolRemoved (filter (\<lambda>t. origin t = Provider n) (tools st))\<rparr>"

definition removeMcpServerByName :: "jsval \<Rightarrow> app \<Rightarrow> app" where
  "removeMcpServerByName n s =
     (case find (\<lambda>p. server_name p = n) (mcpServers s) of
        None \<Rightarrow> s
      | Some p \<Rightarrow>
          (case shutdown p of
             (err, p') \<Rightarrow>
               s\<lparr>mcpServers := filter (\<lambda>q. server_name q \<noteq> n) (mcpServers s),
                 registry := removeToolsOf n (registry s),
                 shutdown_calls := shutdown_calls s @ [n],
                 provider_events := provider_events s @ [ProviderRemoved n]\<rparr>))"





section \<open>The request handlers of \<^verbatim>\<open>index.mjs\<close>\<close>

text \<open>
  A request body is the object that \<^verbatim>\<open>express.json()\<close> parsed (the empty object when the
  request has none). A handler answers with a status and a JSON body. \<open>ReplyConfig\<close>
  is the answer \<^verbatim>\<open>config.toJSON()\<close>; \<open>Unanswered e\<close> is an async handler whose promise
  is rejected with \<open>e\<close>, so that the handler sends no answer; \<open>NotEmbedded\<close> is a handler that called
  the host outside the embedding. The two routes under \<^verbatim>\<open>/api/ai-tool-creation\<close> read
  no field of the body and are not embedded.
\<close>

datatype response = Reply nat jsval | ReplyConfig | Unanswered jsval | NotEmbedded

definition status_ok :: jsval where
  "status_ok = JObj [(''status'', JStr ''ok'')]"

definition missing_required_fields :: jsval where
  "missing_required_fields =
     JObj [(''status'', JStr ''error''), (''message'', JStr ''Missing required fields'')]"

text \<open>\<^verbatim>\<open>!req.body.k1 || ... || !req.body.kn\<close>.\<close>

definition missing :: "string list \<Rightarrow> (string \<times> jsval) list \<Rightarrow> bool" where
  "missing ks body = list_ex (\<lambda>k. \<not> truthy (get_property body k)) ks"

text \<open>
  \<^verbatim>\<open>POST /api/config\<close>. The \<^verbatim>\<open>Configuration\<close> class (\<^verbatim>\<open>config.mjs\<close>) is not among the
  sources; its setters are taken to assign the fields.
\<close>

definition post_config :: "(string \<times> jsval) list \<Rightarrow> app \<Rightarrow> response \<times> app" where
  "post_config body s =
     (if missing [''systemPrompt'', ''model'', ''endpoint''] body
      then (Reply 400 missing_required_fields, s)
      else
        let s1 = (if truthy (get_property body ''apiKey'')
                  then s\<lparr>apiKey := get_property body ''apiKey''\<rparr> else s);
            s2 = s1\<lparr>model := get_property body ''model''\<rparr>;
            s3 = s2\<lparr>endpoint := get_property body ''endpoint''\<rparr>;
            s4 = s3\<lparr>systemPrompt := get_property body ''systemPrompt''\<rparr>
        in (ReplyConfig, s4))"

text \<open>
  \<^verbatim>\<open>POST /api/messages\<close> hands \<^verbatim>\<open>req.body.message\<close> to \<^verbatim>\<open>llmClient.sendMessage\<close> as it
  is. \<^verbatim>\<open>sendMessage\<close> (\<^verbatim>\<open>llmClient.mjs\<close>) is not among the sources and is a parameter:
  it gives the error it throws, if any, and the state it leaves.
\<close>

definition post_messages ::
  "(jsval \<Rightarrow> app \<Rightarrow> jsval option \<times> app) \<Rightarrow> (string \<times> jsval) list \<Rightarrow> app \<Rightarrow> response \<times> app"
where
  "post_messages sendMessage body s =
     (case sendMessage (get_property body ''message'') s of
        (None, s') \<Rightarrow> (Reply 200 status_ok, s')
      | (Some e, s') \<Rightarrow> (Unanswered e, s'))"

definition delete_messages :: "app \<Rightarrow> response \<times> app" where
  "delete_messages s = (Reply 200 status_ok, clearMessages s)"

text \<open>
  \<^verbatim>\<open>POST /api/mcp-servers\<close>. Constructing and bootstrapping the provider
  (\<^verbatim>\<open>mcpServer.mjs\<close>) is a parameter: \<open>Inl\<close> what it throws, \<open>Inr\<close> the bootstrapped
  provider. The catch clause answers 500 with \<^verbatim>\<open>e.message\<close>.
\<close>

definition post_mcp_servers ::
  "(jsval \<Rightarrow> jsval \<Rightarrow> jsval \<Rightarrow> jsval + provider) \<Rightarrow> (string \<times> jsval) list \<Rightarrow> app
     \<Rightarrow> response \<times> app"
where
  "post_mcp_servers bootstrap body s =
     (if missing [''name'', ''command'', ''args''] body
      then (Reply 400 missing_required_fields, s)
      else
        (case bootstrap (get_property body ''name'') (get_property body ''command'')
                (get_property body ''args'') of
           Inr p \<Rightarrow> (Reply 200 status_ok, addMcpServer p s)
         | Inl e \<Rightarrow>
             (case message_of e of
                Inl t \<Rightarrow> (Unanswered t, s)
              | Inr m \<Rightarrow> (Reply 500 (JObj [(''status'', JStr ''error''), (''message'', m)]), s))))"

definition delete_mcp_servers :: "(string \<times> jsval) list \<Rightarrow> app \<Rightarrow> response \<times> app" where
  "delete_mcp_servers body s =
     (if missing [''name''] body then (Reply 400 missing_required_fields, s)
      else (Reply 200 status_ok, removeMcpServerByName (get_property body ''name'') s))"

definition post_tools :: "host \<Rightarrow> (string \<times> jsval) list \<Rightarrow> app \<Rightarrow> response \<times> app" where
  "post_tools h body s =
     (if missing [''name'', ''description'', ''code'', ''parameters''] body
      then (Reply 400 missing_required_fields, s)
      else
        (case addLocalTool h (get_property body ''name'') (get_property body ''description'')
                (get_property body ''code'') (get_property body ''parameters'') (registry s) of
           Done st \<Rightarrow> (Reply 200 status_ok, s\<lparr>registry := st\<rparr>)
         | Thrown e \<Rightarrow> (Unanswered e, s)
         | Unembedded \<Rightarrow> (NotEmbedded, s)))"

definition delete_tools :: "(string \<times> jsval) list \<Rightarrow> app \<Rightarrow> response \<times> app" where
  "delete_tools body s =
     (if missing [''name''] body then (Reply 400 missing_required_fields, s)
      else (Reply 200 status_ok,
            s\<lparr>registry := removeToolByName (get_property body ''name'') (registry s)\<rparr>))"

section \<open>The Orchestration Loop\<close>

text \<open>
  Modelled from the spec: the \<^verbatim>\<open>LlmClient\<close> class (\<^verbatim>\<open>llmClient.mjs\<close>) is not among the
  sources. The loop is a state machine with the states awaiting-model,
  executing-tools, done and failed. Awaiting the model, it composes a request from
  the log and the tool specs of the registry; a final answer is appended as an
  assistant message and ends the loop, a backend error fails it, and tool-call
  requests (each a tool name, arguments and a call id) are executed: every call is
  resolved through the registry, an unknown name gives a structured
  \<open>UnknownToolError\<close> result for that call, a failure inside the tool gives a
  structured \<open>ToolExecutionError\<close> result, and exactly one tool-result message per
  call, carrying the call's id, is appended once all calls of the turn are resolved;
  then the loop awaits the model again. A call that never settles keeps the turn from
  completing (\<open>None\<close>).
\<close>

record tool_call =
  tc_id :: string
  tc_name :: jsval
  tc_arguments :: arguments

datatype model_response = FinalAnswer jsval | ToolCalls "tool_call list" | BackendError jsval

type_synonym backend = "message list \<Rightarrow> (jsval \<times> jsval \<times> jsval) list \<Rightarrow> model_response"

datatype loop_state = AwaitingModel | ExecutingTools "tool_call list" | LoopDone | LoopFailed jsval

definition tool_specs :: "toolStore \<Rightarrow> (jsval \<times> jsval \<times> jsval) list" where
  "tool_specs st = map (\<lambda>t. (name t, description t, parameters t)) (tools st)"

definition invoke :: "toolStore \<Rightarrow> jsval \<Rightarrow> arguments \<Rightarrow> content + promise" where
  "invoke st n a =
     (case find (\<lambda>t. name t = n) (tools st) of
        None \<Rightarrow> Inl (UnknownToolError n)
      | Some t \<Rightarrow> Inr (execute t a))"

definition result_message :: "tool_call \<Rightarrow> content \<Rightarrow> message" where
  "result_message c x =
     \<lparr>role = ToolRole, content = x, call_id = Some (tc_id c), tool_name = Some (tc_name c)\<rparr>"

definition resolve_call :: "toolStore \<Rightarrow> tool_call \<Rightarrow> message option" where
  "resolve_call st c =
     (case invoke st (tc_name c) (tc_arguments c) of
        Inl failure \<Rightarrow> Some (result_message c failure)
      | Inr (Fulfilled v) \<Rightarrow> Some (result_message c (Text v))
      | Inr (Rejected e) \<Rightarrow> Some (result_message c (ToolExecutionError e))
      | Inr Pending \<Rightarrow> None)"

fun resolve_calls :: "toolStore \<Rightarrow> tool_call list \<Rightarrow> message list option" where
  "resolve_calls st [] = Some []"
| "resolve_calls st (c # cs) =
     (case resolve_call st c of
        None \<Rightarrow> None
      | Some m \<Rightarrow> (case resolve_calls st cs of None \<Rightarrow> None | Some ms \<Rightarrow> Some (m # ms)))"

fun loop_step ::
  "backend \<Rightarrow> toolStore \<Rightarrow> loop_state \<times> message list \<Rightarrow> (loop_state \<times> message list) option"
where
  "loop_step be st (AwaitingModel, log) =
     (case be log (tool_specs st) of
        FinalAnswer a \<Rightarrow>
          Some (LoopDone,
                log @ [\<lparr>role = Assistant, content = Text a, call_id = None, tool_name = None\<rparr>])
      | ToolCalls cs \<Rightarrow> Some (ExecutingTools cs, log)
      | BackendError e \<Rightarrow> Some (LoopFailed e, log))"
| "loop_step be st (ExecutingTools cs, log) =
     (case resolve_calls st cs of
        None \<Rightarrow> None
      | Some ms \<Rightarrow> Some (AwaitingModel, log @ ms))"
| "loop_step be st (LoopDone, log) = Some (LoopDone, log)"
| "loop_step be st (LoopFailed e, log) = Some (LoopFailed e, log)"

section \<open>Sample states\<close>

text \<open>
  For the examples: tools that answer with their own name and the arguments they
  were given, a tool that always throws, a tool that never settles, providers that
  discovered such tools, and a state with one local tool and two providers
  contributing distinct tools.
\<close>

definition sample_tool :: "string \<Rightarrow> tool" where
  "sample_tool x =
     \<lparr>name = JStr x, description = JStr ''sample'', parameters = JObj [], origin = Local,
      execute =
        (\<lambda>a. Fulfilled
                (JObj [(''tool'', JStr x),
                       (''arguments'',
                        case a of ArgUndefined \<Rightarrow> JUndefined | ArgNull \<Rightarrow> JNull
                        | ArgObject ps \<Rightarrow> JObj ps)]))\<rparr>"

definition failing_tool :: tool where
  "failing_tool =
     \<lparr>name = JStr ''broken'', description = JStr ''sample'', parameters = JObj [],
      origin = Local, execute = (\<lambda>a. Rejected (JError ''Error'' ''boom''))\<rparr>"

definition pending_tool :: tool where
  "pending_tool =
     \<lparr>name = JStr ''stuck'', description = JStr ''sample'', parameters = JObj [],
      origin = Local, execute = (\<lambda>a. Pending)\<rparr>"

definition sample_provider :: "string \<Rightarrow> string list \<Rightarrow> provider" where
  "sample_provider n xs =
     \<lparr>server_name = JStr n, launch_command = JStr ''npx'', launch_args = JArr [],
      alive = True, terminate_requests = 0, discovered = map sample_tool xs\<rparr>"

definition two_providers :: app where
  "two_providers =
     addMcpServer (sample_provider ''weather'' [''forecast'', ''alerts''])
       (addMcpServer (sample_provider ''files'' [''read'', ''write''])
          ((initial JUndefined (JStr ''prompt''))
             \<lparr>registry := addTool (sample_tool ''clock'') (registry (initial JUndefined (JStr ''prompt'')))\<rparr>))"

text \<open>
  Four tool calls of one turn: a local tool, a name that no tool has, the tool that
  throws, and a provider's tool.
\<close>

definition sample_calls :: "tool_call list" where
  "sample_calls =
     [\<lparr>tc_id = ''call_1'', tc_name = JStr ''clock'',
       tc_arguments = ArgObject [(''zone'', JStr ''UTC'')]\<rparr>,
      \<lparr>tc_id = ''call_2'', tc_name = JStr ''nope'', tc_arguments = ArgObject []\<rparr>,
      \<lparr>tc_id = ''call_3'', tc_name = JStr ''broken'', tc_arguments = ArgObject []\<rparr>,
      \<lparr>tc_id = ''call_4'', tc_name = JStr ''forecast'',
       tc_arguments = ArgObject [(''city'', JStr ''Oslo'')]\<rparr>]"

definition sample_registry :: toolStore where
  "sample_registry = addTool failing_tool (registry two_providers)"

text \<open>
  A stand-in for the absent \<^verbatim>\<open>sendMessage\<close> in the examples: its first step, appending
  the user message, and nothing more.
\<close>

definition append_user_message :: "jsval \<Rightarrow> app \<Rightarrow> jsval option \<times> app" where
  "append_user_message text s =
     (None, addMessage \<lparr>role = User, content = Text text, call_id = None, tool_name = None\<rparr> s)"

section \<open>Properties of the Dynamic Tool Compiler\<close>

lemma identifier_part_plain: "identifier_part c \<Longrightarrow> c \<noteq> CHR '','' \<and> \<not> is_space c"
  by (auto simp: identifier_part_def identifier_start_def is_letter_def is_digit_def is_space_def)

lemma identifier_chars:
  "is_identifier k \<Longrightarrow> k \<noteq> [] \<and> (\<forall>c\<in>set k. identifier_part c)"
  by (cases k) (auto simp: is_identifier_def identifier_part_def list_all_iff)

lemma identifier_not_index: "is_identifier k \<Longrightarrow> \<not> is_array_index k"
  by (cases k)
     (auto simp: is_identifier_def is_array_index_def identifier_start_def is_letter_def
        is_digit_def)

lemma own_enumerable_identifiers:
  "list_all is_identifier (map fst ps) \<Longrightarrow> own_enumerable ps = ps"
proof -
  assume a: "list_all is_identifier (map fst ps)"
  then have "\<forall>p\<in>set ps. \<not> is_array_index (fst p)"
    by (auto simp: list_all_iff dest: identifier_not_index)
  then have "filter (\<lambda>p. is_array_index (fst p)) ps = []"
    and "filter (\<lambda>p. \<not> is_array_index (fst p)) ps = ps"
    by (auto simp: filter_empty_conv)
  then show ?thesis by (simp add: own_enumerable_def)
qed

lemma split_commas_nonempty: "split_commas s \<noteq> []"
  by (induction s) (auto split: list.splits)

lemma split_commas_prefix:
  "CHR '','' \<notin> set s \<Longrightarrow>
     split_commas (s @ t) = (s @ hd (split_commas t)) # tl (split_commas t)"
proof (induction s)
  case Nil
  then show ?case using split_commas_nonempty [of t] by simp
next
  case (Cons c s)
  then show ?case by auto
qed

lemma split_commas_plain: "CHR '','' \<notin> set s \<Longrightarrow> split_commas s = [s]"
  using split_commas_prefix [of s "[]"] by simp

lemma split_commas_step:
  assumes "CHR '','' \<notin> set s"
  shows "split_commas (s @ CHR '','' # t) = s # split_commas t"
  using split_commas_prefix [OF assms, of "CHR '','' # t"] by simp

lemma trim_plain:
  assumes "k \<noteq> []" and "\<forall>c\<in>set k. \<not> is_space c"
  shows "trim ('' '' @ k) = k" and "trim ('' '' @ k @ '' '') = k"
proof -
  obtain c cs where k: "k = c # cs" using assms(1) by (cases k) auto
  have hd: "\<not> is_space c" using assms(2) k by simp
  have sp: "is_space CHR '' ''" by (simp add: is_space_def)
  have dw: "dropWhile is_space (rev k) = rev k"
    using assms by (cases "rev k") (auto simp: hd_rev last_in_set dest: arg_cong [where f = set])
  show "trim ('' '' @ k) = k"
    using hd sp dw k by (simp add: trim_def)
  show "trim ('' '' @ k @ '' '') = k"
    using hd sp dw k by (simp add: trim_def)
qed


lemma pieces_of_joined:
  assumes "ks \<noteq> []" and "\<forall>k\<in>set ks. k \<noteq> [] \<and> (\<forall>c\<in>set k. c \<noteq> CHR '','' \<and> \<not> is_space c)"
  shows "map trim (split_commas ('' '' @ join '', '' ks @ '' '')) = ks"
  using assms
proof (induction ks rule: list_nonempty_induct)
  case (single x)
  then have "CHR '','' \<notin> set ('' '' @ x @ '' '')" by auto
  then have "split_commas ('' '' @ x @ '' '') = ['' '' @ x @ '' '']"
    by (rule split_commas_plain)
  moreover have "trim ('' '' @ x @ '' '') = x"
    using single by (intro trim_plain) auto
  ultimately show ?case by simp
next
  case (cons x xs)
  obtain y ys where xs: "xs = y # ys" using cons.hyps by (cases xs) auto
  have nc: "CHR '','' \<notin> set ('' '' @ x)" using cons.prems by auto
  have "'' '' @ join '', '' (x # xs) @ '' ''
        = ('' '' @ x) @ CHR '','' # ('' '' @ join '', '' xs @ '' '')"
    by (simp add: xs)
  then have "split_commas ('' '' @ join '', '' (x # xs) @ '' '')
        = ('' '' @ x) # split_commas ('' '' @ join '', '' xs @ '' '')"
    using split_commas_step [OF nc] by simp
  moreover have "trim ('' '' @ x) = x"
    using cons.prems by (intro trim_plain) auto
  moreover have "map trim (split_commas ('' '' @ join '', '' xs @ '' '')) = xs"
    using cons by simp
  ultimately show ?case by simp
qed

lemma formal_parameters_identifiers:
  assumes "list_all is_identifier ks" and "distinct ks"
  shows "formal_parameters ('' '' @ join '', '' ks @ '' '') = Some ks"
proof (cases "ks = []")
  case True
  then show ?thesis by (simp add: formal_parameters_def trim_def is_space_def)
next
  case False
  have "\<forall>k\<in>set ks. k \<noteq> [] \<and> (\<forall>c\<in>set k. c \<noteq> CHR '','' \<and> \<not> is_space c)"
    using assms(1) identifier_chars identifier_part_plain by (auto simp: list_all_iff)
  with False have "map trim (split_commas ('' '' @ join '', '' ks @ '' '')) = ks"
    by (rule pieces_of_joined)
  moreover have "ks \<noteq> [[]]" using assms(1) by (auto simp: is_identifier_def)
  ultimately show ?thesis using assms by (simp add: formal_parameters_def)
qed

lemma map_arguments_object:
  "map_arguments (ArgObject args) ks = Inr (map (get_property args) ks)"
  by (induction ks) auto

lemma bind_same_length: "length vs = length fs \<Longrightarrow> bind fs vs = zip fs vs"
  by (simp add: bind_def)


lemma zip_with_images: "zip ks (map f ks) = map (\<lambda>k. (k, f k)) ks"
  by (induction ks) auto

lemma onExecute_object:
  "onExecute ks (Callable ks b) (ArgObject args) =
     try_await (b (map (\<lambda>k. (k, get_property args k)) ks))"
  by (simp add: onExecute_def map_arguments_object apply_callable_def bind_same_length
      zip_with_images)

lemma new_Function_identifiers:
  assumes "list_all is_identifier ks" and "distinct ks" and "h ks code = Inr b"
  shows "new_Function h ks code = Done (Callable ks b)"
  using formal_parameters_identifiers [OF assms(1,2)] assms(3)
  by (simp add: new_Function_def)

text \<open>
  Claim C7, as amended. When the property names the schema declares are distinct plain
  identifiers, \<^verbatim>\<open>requestedParameters\<close> is the list of those names in declaration
  order, the synthesized function has exactly these formal parameters, the tool is
  registered with origin local, and invoking it with a named-argument object runs the
  supplied body with each parameter bound to the argument of the same name.
\<close>

theorem compiled_parameters_follow_schema:
  assumes "optional_properties params = JObj props"
    and "list_all is_identifier (map fst props)"
    and "distinct (map fst props)"
    and "h (map fst props) code = Inr b"
  shows "requestedParameters params = Inr (map fst props)
       \<and> new_Function h (map fst props) code = Done (Callable (map fst props) b)
       \<and> addLocalTool h nm descr code params st =
           Done (addTool \<lparr>name = nm, description = descr, parameters = params,
                          origin = Local,
                          execute = onExecute (map fst props) (Callable (map fst props) b)\<rparr> st)
       \<and> onExecute (map fst props) (Callable (map fst props) b) (ArgObject args) =
           try_await (b (map (\<lambda>k. (k, get_property args k)) (map fst props)))"
proof -
  have keys: "requestedParameters params = Inr (map fst props)"
    using assms(1,2) by (simp add: requestedParameters_def own_enumerable_identifiers)
  have compiled: "new_Function h (map fst props) code = Done (Callable (map fst props) b)"
    using assms(2-4) by (rule new_Function_identifiers)
  have "addLocalTool h nm descr code params st =
           Done (addTool \<lparr>name = nm, description = descr, parameters = params,
                          origin = Local,
                          execute = onExecute (map fst props) (Callable (map fst props) b)\<rparr> st)"
    by (simp add: addLocalTool_def keys compiled)
  then show ?thesis using keys compiled onExecute_object by simp
qed

text \<open>
  The theorem at a schema declaring \<^verbatim>\<open>city\<close> and \<^verbatim>\<open>days\<close>, invoked with the
  arguments in the other order.
\<close>

theorem compiled_parameters_follow_schema_witness:
  "optional_properties
      (JObj [(''type'', JStr ''object''),
             (''properties'', JObj [(''city'', JObj []), (''days'', JObj [])])])
     = JObj [(''city'', JObj []), (''days'', JObj [])]
   \<and> list_all is_identifier (map fst [(''city'', JObj []), (''days'', JObj [])])
   \<and> distinct (map fst [(''city'', JObj []), (''days'', JObj [])])
   \<and> requestedParameters
      (JObj [(''type'', JStr ''object''),
             (''properties'', JObj [(''city'', JObj []), (''days'', JObj [])])])
     = Inr [''city'', ''days'']
   \<and> onExecute [''city'', ''days''] (Callable [''city'', ''days''] (return_variables [''city'', ''days'']))
        (ArgObject [(''days'', JNum 3), (''city'', JStr ''Oslo'')])
     = Fulfilled (JArr [JStr ''Oslo'', JNum 3])"
proof -
  let ?props = "[(''city'', JObj []), (''days'', JObj [])]"
  let ?params = "JObj [(''type'', JStr ''object''), (''properties'', JObj ?props)]"
  let ?h = "\<lambda>(fs::string list) (c::jsval). (Inr (return_variables [''city'', ''days'']) :: jsval + body)"
  have 1: "optional_properties ?params = JObj ?props"
    by (simp add: get_property_def)
  have 2: "list_all is_identifier (map fst ?props)"
    by (simp add: is_identifier_def identifier_start_def identifier_part_def is_letter_def
        is_digit_def reserved_words_def)
  have 3: "distinct (map fst ?props)" by simp
  have 4: "?h (map fst ?props) (JStr ''return [city, days]'')
      = Inr (return_variables [''city'', ''days''])"
    by simp
  have 5: "try_await (return_variables [''city'', ''days'']
             (map (\<lambda>k. (k, get_property [(''days'', JNum 3), (''city'', JStr ''Oslo'')] k))
                (map fst ?props)))
           = Fulfilled (JArr [JStr ''Oslo'', JNum 3])"
    by (simp add: try_await_def return_variables_def get_property_def)
  show ?thesis
    using compiled_parameters_follow_schema [OF 1 2 3 4,
        where args = "[(''days'', JNum 3), (''city'', JStr ''Oslo'')]"] 1 2 3 5
    by simp
qed

text \<open>
  Claim C7 as stated fails for a property name that is not an identifier. The header is
  synthesized as text, so the single declared name \<^verbatim>\<open>a, b\<close> gives a function of two
  formal parameters \<^verbatim>\<open>a\<close> and \<^verbatim>\<open>b\<close>; invoked with an argument object, \<^verbatim>\<open>a\<close> is bound
  to the argument named \<^verbatim>\<open>a, b\<close> and \<^verbatim>\<open>b\<close> to \<^verbatim>\<open>undefined\<close>, whatever the arguments
  named \<^verbatim>\<open>a\<close> and \<^verbatim>\<open>b\<close> are.
\<close>

theorem comma_in_property_name_counterexample:
  "requestedParameters (JObj [(''properties'', JObj [(''a, b'', JObj [])])]) = Inr [''a, b'']
   \<and> (case new_Function (\<lambda>fs c. Inr (return_variables [''a'', ''b''])) [''a, b'']
             (JStr ''return [a, b]'') of
         Done f \<Rightarrow> formals f = [''a'', ''b''] | Thrown e \<Rightarrow> False | Unembedded \<Rightarrow> False)
   \<and> (case addLocalTool (\<lambda>fs c. Inr (return_variables [''a'', ''b''])) (JStr ''t'') (JStr ''d'')
             (JStr ''return [a, b]'') (JObj [(''properties'', JObj [(''a, b'', JObj [])])])
             \<lparr>tools = [], fired = []\<rparr> of
         Done st \<Rightarrow>
           map (\<lambda>t. execute t (ArgObject [(''a'', JNum 1), (''b'', JNum 2), (''a, b'', JNum 3)]))
             (tools st)
         | Thrown e \<Rightarrow> [] | Unembedded \<Rightarrow> [])
       = [Fulfilled (JArr [JNum 3, JUndefined])]"
  by code_simp

lemma onExecute_depends_on_declared:
  assumes "\<forall>k\<in>set ks. get_property args k = get_property args' k"
  shows "onExecute ks f (ArgObject args) = onExecute ks f (ArgObject args')"
proof -
  have "map (get_property args) ks = map (get_property args') ks"
    using assms by simp
  then show ?thesis
    unfolding onExecute_def map_arguments_object by (simp del: map_eq_conv)
qed

lemma no_properties_no_parameters:
  assumes "\<not> truthy (optional_properties params)"
  shows "requestedParameters params = Inr []"
  using assms by (simp add: requestedParameters_def own_enumerable_def)

lemma onExecute_no_parameters: "onExecute [] (Callable [] b) a = try_await (b [])"
  by (simp add: onExecute_def apply_callable_def bind_def)

text \<open>
  Claim C10, as amended. For a tool whose synthesized parameter list is a list of
  plain identifiers \<open>fs\<close> and whose code is the body of the function:
  invoking it with an argument object runs the body (it does not fail before the
  body) with the values read from the object for the declared names \<open>rp\<close> bound, by
  position, to the parameters; the value passed for a declared name that the object
  omits, and that is not a member every object inherits from \<^verbatim>\<open>Object.prototype\<close>, is
  \<^verbatim>\<open>undefined\<close>, and where the parameters are the declared names that parameter is
  bound to \<^verbatim>\<open>undefined\<close>; two argument objects that agree on the declared names give
  the same invocation, so properties that the schema does not declare never reach the
  body; and a schema without a properties object gives a function of no parameters,
  which runs the body whatever the argument object is.
\<close>

theorem omitted_and_undeclared_arguments:
  assumes "formal_parameters ('' '' @ join '', '' rp @ '' '') = Some fs"
    and "h fs code = Inr b"
  shows "new_Function h rp code = Done (Callable fs b)
       \<and> onExecute rp (Callable fs b) (ArgObject args) =
           try_await (b (bind fs (map (get_property args) rp)))
       \<and> (\<forall>i<length rp. map_of args (rp ! i) = None \<and> rp ! i \<notin> set Object_prototype_names \<longrightarrow>
             map (get_property args) rp ! i = JUndefined)
       \<and> (fs = rp \<longrightarrow>
             (\<forall>k\<in>set rp. map_of args k = None \<and> k \<notin> set Object_prototype_names \<longrightarrow>
                map_of (bind fs (map (get_property args) rp)) k = Some JUndefined))
       \<and> ((\<forall>k\<in>set rp. get_property args k = get_property args' k) \<longrightarrow>
             onExecute rp (Callable fs b) (ArgObject args) =
             onExecute rp (Callable fs b) (ArgObject args'))
       \<and> (\<not> truthy (optional_properties params) \<and> h [] code = Inr bz \<longrightarrow>
             requestedParameters params = Inr []
             \<and> new_Function h [] code = Done (Callable [] bz)
             \<and> onExecute [] (Callable [] bz) a = try_await (bz []))"
proof -
  have 1: "new_Function h rp code = Done (Callable fs b)"
    using assms by (simp add: new_Function_def)
  have 2: "onExecute rp (Callable fs b) (ArgObject args) =
           try_await (b (bind fs (map (get_property args) rp)))"
    by (simp add: onExecute_def map_arguments_object apply_callable_def)
  have 3: "\<forall>i<length rp. map_of args (rp ! i) = None \<and> rp ! i \<notin> set Object_prototype_names \<longrightarrow>
             map (get_property args) rp ! i = JUndefined"
    by (simp add: get_property_def)
  have 4: "fs = rp \<longrightarrow>
             (\<forall>k\<in>set rp. map_of args k = None \<and> k \<notin> set Object_prototype_names \<longrightarrow>
                map_of (bind fs (map (get_property args) rp)) k = Some JUndefined)"
    by (simp add: bind_same_length map_of_zip_map get_property_def)
  have 5: "h [] code = Inr bz \<longrightarrow> new_Function h [] code = Done (Callable [] bz)"
    using new_Function_identifiers [of "[]" h code bz] by simp
  show ?thesis
    using 1 2 3 4 5 onExecute_depends_on_declared [of rp args args']
      no_properties_no_parameters [of params] onExecute_no_parameters [of bz a]
    by blast
qed

text \<open>
  The theorem at a tool declaring \<^verbatim>\<open>city\<close> and \<^verbatim>\<open>days\<close>, invoked without \<^verbatim>\<open>days\<close> and
  with an undeclared \<^verbatim>\<open>zip\<close>; and at a schema with no properties, where the same
  body finds \<^verbatim>\<open>city\<close> unbound and the catch clause reports it.
\<close>

theorem omitted_and_undeclared_arguments_witness:
  "formal_parameters ('' '' @ join '', '' [''city'', ''days''] @ '' '') = Some [''city'', ''days'']
   \<and> map_of [(''city'', JStr ''Oslo''), (''zip'', JNum 7)] ''days'' = None
   \<and> ''days'' \<notin> set Object_prototype_names
   \<and> \<not> truthy (optional_properties (JObj [(''type'', JStr ''object'')]))
   \<and> onExecute [''city'', ''days'']
        (Callable [''city'', ''days''] (return_variables [''city'', ''days'']))
        (ArgObject [(''city'', JStr ''Oslo''), (''zip'', JNum 7)])
      = Fulfilled (JArr [JStr ''Oslo'', JUndefined])
   \<and> onExecute [''city'', ''days'']
        (Callable [''city'', ''days''] (return_variables [''city'', ''days'']))
        (ArgObject [(''city'', JStr ''Oslo'')])
      = Fulfilled (JArr [JStr ''Oslo'', JUndefined])
   \<and> map (get_property [(''city'', JStr ''Oslo''), (''zip'', JNum 7)]) [''city'', ''days''] ! 1
      = JUndefined
   \<and> map_of (bind [''city'', ''days'']
         (map (get_property [(''city'', JStr ''Oslo''), (''zip'', JNum 7)]) [''city'', ''days'']))
         ''days'' = Some JUndefined
   \<and> requestedParameters (JObj [(''type'', JStr ''object'')]) = Inr []
   \<and> onExecute [] (Callable [] (return_variables [''city'', ''days''])) ArgUndefined
      = Fulfilled (JStr (''{'' @ json_quote ''success'' @ '':false,''
                         @ json_quote ''errorMessage'' @ '':''
                         @ json_quote ''city is not defined'' @ ''}''))"
proof -
  let ?ks = "[''city'', ''days'']"
  let ?args = "[(''city'', JStr ''Oslo''), (''zip'', JNum 7)]"
  let ?args' = "[(''city'', JStr ''Oslo'')]"
  let ?b = "return_variables ?ks"
  let ?h = "\<lambda>(fs::string list) (c::jsval). (Inr ?b :: jsval + body)"
  have 1: "list_all is_identifier ?ks"
    by (simp add: is_identifier_def identifier_start_def identifier_part_def is_letter_def
        is_digit_def reserved_words_def)
  have 2: "formal_parameters ('' '' @ join '', '' ?ks @ '' '') = Some ?ks"
    using 1 by (intro formal_parameters_identifiers) simp_all
  have 3: "?h ?ks (JStr ''return [city, days]'') = Inr ?b" by simp
  have 30: "?h [] (JStr ''return [city, days]'') = Inr ?b" by simp
  have 4: "map_of ?args ''days'' = None \<and> ''days'' \<notin> set Object_prototype_names"
    by (simp add: Object_prototype_names_def)
  have 5: "\<not> truthy (optional_properties (JObj [(''type'', JStr ''object'')]))"
    by (simp add: get_property_def Object_prototype_names_def)
  have 6: "\<forall>k\<in>set ?ks. get_property ?args k = get_property ?args' k"
    by (simp add: get_property_def)
  have 7: "try_await (?b (bind ?ks (map (get_property ?args) ?ks)))
           = Fulfilled (JArr [JStr ''Oslo'', JUndefined])"
    by (simp add: try_await_def return_variables_def bind_def get_property_def
        Object_prototype_names_def)
  have 8: "try_await (?b [])
      = Fulfilled (JStr (''{'' @ json_quote ''success'' @ '':false,''
                         @ json_quote ''errorMessage'' @ '':''
                         @ json_quote ''city is not defined'' @ ''}''))"
    by (simp add: try_await_def return_variables_def catch_clause_def own_enumerable_def
        is_array_index_def is_digit_def)
  note inst = omitted_and_undeclared_arguments [where h = ?h and rp = ?ks and fs = ?ks
        and b = ?b and code = "JStr ''return [city, days]''" and args = ?args
        and args' = ?args' and params = "JObj [(''type'', JStr ''object'')]"
        and a = ArgUndefined and bz = ?b,
      OF 2 3]
  have a: "onExecute ?ks (Callable ?ks ?b) (ArgObject ?args)
      = Fulfilled (JArr [JStr ''Oslo'', JUndefined])"
    using inst 7 by simp
  have b: "onExecute ?ks (Callable ?ks ?b) (ArgObject ?args')
      = Fulfilled (JArr [JStr ''Oslo'', JUndefined])"
    using inst 6 a by metis
  have p: "map (get_property ?args) ?ks ! 1 = JUndefined"
  proof -
    have "(1::nat) < length ?ks" by simp
    moreover have "map_of ?args (?ks ! 1) = None \<and> ?ks ! 1 \<notin> set Object_prototype_names"
      using 4 by simp
    ultimately show ?thesis using inst by blast
  qed
  have c: "map_of (bind ?ks (map (get_property ?args) ?ks)) ''days'' = Some JUndefined"
    using inst 4 by simp
  have d: "requestedParameters (JObj [(''type'', JStr ''object'')]) = Inr []"
    using inst 5 30 by blast
  have e: "onExecute [] (Callable [] ?b) ArgUndefined = try_await (?b [])"
    using inst 5 30 by blast
  show ?thesis using 2 4 5 a b p c d e 8 by simp
qed

text \<open>
  Claim C10 as stated fails in two ways. A declared parameter named like a member of
  \<^verbatim>\<open>Object.prototype\<close>: \<^verbatim>\<open>incomingArgs[p]\<close> finds the inherited member, so a tool
  declaring \<^verbatim>\<open>constructor\<close>, invoked with the empty argument object, runs its body
  with \<^verbatim>\<open>constructor\<close> bound to the inherited function, not to \<^verbatim>\<open>undefined\<close>. And a
  declared name that is not a plain identifier: the name \<^verbatim>\<open>limit = 5\<close> is pasted into
  the header as a parameter with a default value, so the tool invoked with the empty
  argument object runs its body with \<^verbatim>\<open>limit\<close> bound to 5.
\<close>

theorem inherited_member_counterexample:
  "(case addLocalTool (\<lambda>fs c. Inr (return_variables [''constructor''])) (JStr ''t'') (JStr ''d'')
          (JStr ''return [constructor]'')
          (JObj [(''type'', JStr ''object''),
                 (''properties'', JObj [(''constructor'', JObj [(''type'', JStr ''string'')])])])
          \<lparr>tools = [], fired = []\<rparr> of
      Done st \<Rightarrow> map (\<lambda>t. execute t (ArgObject [])) (tools st)
    | Thrown e \<Rightarrow> [] | Unembedded \<Rightarrow> [])
   = [Fulfilled (JArr [JBuiltin ''constructor''])]
   \<and> (case addLocalTool (\<lambda>fs c. Inr (return_variables [''limit''])) (JStr ''t'') (JStr ''d'')
          (JStr ''return [limit]'')
          (JObj [(''type'', JStr ''object''),
                 (''properties'', JObj [(''limit = 5'', JObj [(''type'', JStr ''number'')])])])
          \<lparr>tools = [], fired = []\<rparr> of
      Done st \<Rightarrow> map (\<lambda>t. execute t (ArgObject [])) (tools st)
    | Thrown e \<Rightarrow> [] | Unembedded \<Rightarrow> [])
   = [Fulfilled (JArr [JNum 5])]"
proof -
  have inherited: "(case addLocalTool (\<lambda>fs c. Inr (return_variables [''constructor''])) (JStr ''t'') (JStr ''d'')
          (JStr ''return [constructor]'')
          (JObj [(''type'', JStr ''object''),
                 (''properties'', JObj [(''constructor'', JObj [(''type'', JStr ''string'')])])])
          \<lparr>tools = [], fired = []\<rparr> of
      Done st \<Rightarrow> map (\<lambda>t. execute t (ArgObject [])) (tools st)
    | Thrown e \<Rightarrow> [] | Unembedded \<Rightarrow> [])
   = [Fulfilled (JArr [JBuiltin ''constructor''])]"
    by code_simp
  have "parameter_with_default ''limit = 5'' = Some (''limit'', Some (JNum 5))"
    by (simp add: parameter_with_default_def is_identifier_def identifier_start_def
        identifier_part_def is_letter_def is_digit_def reserved_words_def trim_def is_space_def
        is_array_index_def index_value_def numeral_value_def)
  then have "default_parameters '' limit = 5 '' = Some [(''limit'', Some (JNum 5))]"
    by (simp add: default_parameters_def trim_def is_space_def)
  moreover have "formal_parameters '' limit = 5 '' = None"
    by (simp add: formal_parameters_def trim_def is_space_def is_identifier_def
        identifier_start_def identifier_part_def is_letter_def is_digit_def)
  moreover have "requestedParameters
        (JObj [(''type'', JStr ''object''),
               (''properties'', JObj [(''limit = 5'', JObj [(''type'', JStr ''number'')])])])
      = Inr [''limit = 5'']"
    by (simp add: requestedParameters_def get_property_def own_enumerable_def
        is_array_index_def is_digit_def)
  ultimately have "(case addLocalTool (\<lambda>fs c. Inr (return_variables [''limit''])) (JStr ''t'') (JStr ''d'')
          (JStr ''return [limit]'')
          (JObj [(''type'', JStr ''object''),
                 (''properties'', JObj [(''limit = 5'', JObj [(''type'', JStr ''number'')])])])
          \<lparr>tools = [], fired = []\<rparr> of
      Done st \<Rightarrow> map (\<lambda>t. execute t (ArgObject [])) (tools st)
    | Thrown e \<Rightarrow> [] | Unembedded \<Rightarrow> [])
   = [Fulfilled (JArr [JNum 5])]"
    by (simp add: addLocalTool_def new_Function_def addTool_def onExecute_def
        apply_callable_def bind_def bind_defaults_def try_await_def return_variables_def
        get_property_def Object_prototype_names_def)
  with inherited show ?thesis by (rule conjI)
qed

text \<open>
  Claim C1 at the body \<^verbatim>\<open>throw null\<close>: the catch clause reads \<^verbatim>\<open>e.message\<close> of
  \<^verbatim>\<open>null\<close>, which throws a \<^verbatim>\<open>TypeError\<close> outside any try block, so the invocation is
  rejected instead of returning the structured result.
\<close>

theorem throw_null_escapes_catch:
  "(case addLocalTool (\<lambda>fs c. Inr (\<lambda>env. Rejected JNull)) (JStr ''t'') (JStr ''d'')
          (JStr ''throw null'') (JObj [(''type'', JStr ''object''), (''properties'', JObj [])])
          \<lparr>tools = [], fired = []\<rparr> of
      Done st \<Rightarrow> map (\<lambda>t. execute t (ArgObject [])) (tools st)
    | Thrown e \<Rightarrow> [] | Unembedded \<Rightarrow> [])
   = [Rejected (TypeError (cannot_read ''null'' ''message''))]"
  by code_simp

text \<open>
  The catch clause rejects for the thrown values \<^verbatim>\<open>undefined\<close> and \<^verbatim>\<open>null\<close> only; for
  a thrown \<^verbatim>\<open>Error\<close> the invocation returns the JSON text of
  \<^verbatim>\<open>{success: false, errorMessage: message}\<close>.
\<close>

lemma catch_clause_rejects_iff:
  "(\<exists>t. catch_clause e = Rejected t) \<longleftrightarrow> e = JUndefined \<or> e = JNull"
  by (cases e) (auto simp: catch_clause_def)

lemma catch_clause_Error:
  "catch_clause (JError n m) =
     Fulfilled (JStr (''{'' @ json_quote ''success'' @ '':false,'' @ json_quote ''errorMessage''
                      @ '':'' @ json_quote m @ ''}''))"
  by (simp add: catch_clause_def own_enumerable_def is_array_index_def is_digit_def)

lemma onExecute_catches_Error:
  assumes "map_arguments a rp = Inr vs" and "behaviour f (bind (formals f) vs) = Rejected (JError n m)"
  shows "onExecute rp f a =
     Fulfilled (JStr (''{'' @ json_quote ''success'' @ '':false,'' @ json_quote ''errorMessage''
                      @ '':'' @ json_quote m @ ''}''))"
  using assms by (simp add: onExecute_def apply_callable_def try_await_def catch_clause_Error)

lemma map_arguments_throws_TypeError:
  "map_arguments a rp = Inl e \<Longrightarrow> \<exists>m. e = TypeError m"
proof (induction rp)
  case Nil
  then show ?case by simp
next
  case (Cons p rp)
  then show ?case by (cases a) (auto split: sum.splits)
qed

lemma onExecute_rejects_only_nullish:
  assumes "onExecute rp f a = Rejected t"
  shows "\<exists>vs. map_arguments a rp = Inr vs
           \<and> (apply_callable f vs = Rejected JUndefined \<or> apply_callable f vs = Rejected JNull)"
proof (cases "map_arguments a rp")
  case (Inl e)
  then obtain m where "e = TypeError m" using map_arguments_throws_TypeError by blast
  then have "catch_clause e \<noteq> Rejected t"
    using catch_clause_rejects_iff [of e] by (auto simp: TypeError_def)
  then show ?thesis using assms Inl by (simp add: onExecute_def)
next
  case (Inr vs)
  show ?thesis
  proof (cases "apply_callable f vs")
    case (Fulfilled v)
    then show ?thesis using assms Inr by (simp add: onExecute_def try_await_def)
  next
    case (Rejected e)
    then have "catch_clause e = Rejected t"
      using assms Inr by (simp add: onExecute_def try_await_def)
    then have "e = JUndefined \<or> e = JNull"
      using catch_clause_rejects_iff [of e] by blast
    then show ?thesis using Inr Rejected by auto
  next
    case Pending
    then show ?thesis using assms Inr by (simp add: onExecute_def try_await_def)
  qed
qed

section \<open>Properties of the Message Log\<close>

lemma addMessage_wired:
  "listeners_wired s \<Longrightarrow>
     addMessage m s = s\<lparr>messages := messages s @ [m], emitted := emitted s @ [NewMessageEvent m]\<rparr>"
  by (simp add: listeners_wired_def addMessage_def)

lemma wired_after_listening: "listeners_wired (on_listening (initial key prompt))"
  by (simp add: on_listening_def setupEventListeners_def initial_def listeners_wired_def
      addSystemPrompt_def addMessage_def)

lemma wired_addMessage: "listeners_wired s \<Longrightarrow> listeners_wired (addMessage m s)"
  by (simp add: addMessage_wired) (simp add: listeners_wired_def)

text \<open>
  Claim C6. In every state of the running server (the listeners are the ones that
  \<^verbatim>\<open>setupEventListeners\<close> registered; the log and the configuration are arbitrary),
  clearing the log leaves exactly one message: the system message whose content is
  the configured system prompt. The listeners stay as they were.
\<close>

theorem clear_reseeds_system_message:
  assumes "listeners_wired s"
  shows "messages (clearMessages s) =
           [\<lparr>role = System, content = Text (systemPrompt s), call_id = None, tool_name = None\<rparr>]
       \<and> length (messages (clearMessages s)) = 1
       \<and> listeners_wired (clearMessages s)"
  using assms
  by (simp add: clearMessages_def listeners_wired_def addSystemPrompt_def addMessage_def)

text \<open>The theorem after the server has started and one user message was appended.\<close>

theorem clear_reseeds_system_message_witness:
  "listeners_wired
     (addMessage \<lparr>role = User, content = Text (JStr ''hello''), call_id = None, tool_name = None\<rparr>
        (on_listening (initial (JStr ''key'') (JStr ''You are helpful''))))
   \<and> map content (messages
     (addMessage \<lparr>role = User, content = Text (JStr ''hello''), call_id = None, tool_name = None\<rparr>
        (on_listening (initial (JStr ''key'') (JStr ''You are helpful'')))))
      = [Text (JStr ''You are helpful''), Text (JStr ''hello'')]
   \<and> messages (clearMessages
     (addMessage \<lparr>role = User, content = Text (JStr ''hello''), call_id = None, tool_name = None\<rparr>
        (on_listening (initial (JStr ''key'') (JStr ''You are helpful'')))))
      = [\<lparr>role = System, content = Text (JStr ''You are helpful''), call_id = None,
          tool_name = None\<rparr>]"
proof -
  let ?s = "addMessage \<lparr>role = User, content = Text (JStr ''hello''), call_id = None, tool_name = None\<rparr>
        (on_listening (initial (JStr ''key'') (JStr ''You are helpful'')))"
  have w: "listeners_wired ?s"
    by (intro wired_addMessage wired_after_listening)
  have p: "systemPrompt ?s = JStr ''You are helpful''"
    by (simp add: on_listening_def setupEventListeners_def initial_def
      addSystemPrompt_def addMessage_def)
  have m: "map content (messages ?s) = [Text (JStr ''You are helpful''), Text (JStr ''hello'')]"
    by (simp add: on_listening_def setupEventListeners_def initial_def
      addSystemPrompt_def addMessage_def)
  show ?thesis using clear_reseeds_system_message [OF w] w p m by simp
qed

section \<open>Properties of the Tool Registry\<close>

lemma replace_keeps_names:
  "map name (map (\<lambda>u. if name u = name t then t else u) ts) = map name ts"
  by (induction ts) auto

lemma present_iff:
  "list_ex (\<lambda>u. name u = name t) ts \<longleftrightarrow> name t \<in> set (map name ts)"
  by (induction ts) auto

lemma addTool_names:
  "map name (tools (addTool t st)) =
     (if name t \<in> set (map name (tools st)) then map name (tools st)
      else map name (tools st) @ [name t])"
  by (simp add: addTool_def present_iff replace_keeps_names)

lemma addTool_distinct:
  "distinct (map name (tools st)) \<Longrightarrow> distinct (map name (tools (addTool t st)))"
  by (simp add: addTool_names)

lemma addTool_length:
  "name t \<in> set (map name (tools st)) \<Longrightarrow> length (tools (addTool t st)) = length (tools st)"
  by (simp add: addTool_def present_iff)

lemma absent_filter:
  "name t \<notin> set (map name ts) \<Longrightarrow> filter (\<lambda>u. name u = name t) ts = []"
  by (induction ts) auto

lemma replace_unique:
  assumes "distinct (map name ts)" and "name t \<in> set (map name ts)"
  shows "filter (\<lambda>u. name u = name t) (map (\<lambda>u. if name u = name t then t else u) ts) = [t]"
  using assms
proof (induction ts)
  case Nil
  then show ?case by simp
next
  case (Cons a ts)
  show ?case
  proof (cases "name a = name t")
    case True
    then have "name t \<notin> set (map name ts)" using Cons.prems(1) by auto
    then have "name t \<notin> set (map name (map (\<lambda>u. if name u = name t then t else u) ts))"
      by (simp add: replace_keeps_names del: map_map)
    then have "filter (\<lambda>u. name u = name t) (map (\<lambda>u. if name u = name t then t else u) ts) = []"
      by (rule absent_filter)
    then show ?thesis using True by simp
  next
    case False
    then show ?thesis using Cons by auto
  qed
qed

lemma addTool_unique:
  assumes "distinct (map name (tools st))"
  shows "filter (\<lambda>u. name u = name t) (tools (addTool t st)) = [t]"
proof (cases "name t \<in> set (map name (tools st))")
  case True
  then show ?thesis using replace_unique [OF assms True]
    by (simp add: addTool_def present_iff)
next
  case False
  then show ?thesis using absent_filter [OF False]
    by (simp add: addTool_def present_iff)
qed

lemma addLocalTool_Done:
  assumes "addLocalTool h nm descr code params st = Done st'"
  obtains t where "st' = addTool t st" and "name t = nm" and "description t = descr"
    and "parameters t = params" and "origin t = Local"
  using assms
  by (auto simp: addLocalTool_def split: sum.splits result.splits)

lemma addLocalTool_Done_tool:
  assumes "addLocalTool h nm descr code params st = Done st'"
  obtains rp f where "requestedParameters params = Inr rp" and "new_Function h rp code = Done f"
    and "st' = addTool \<lparr>name = nm, description = descr, parameters = params, origin = Local,
                         execute = onExecute rp f\<rparr> st"
  using assms
  by (auto simp: addLocalTool_def split: sum.splits result.splits)

lemma replace_keeps_others:
  "filter (\<lambda>u. name u \<noteq> name t) (map (\<lambda>u. if name u = name t then t else u) ts)
     = filter (\<lambda>u. name u \<noteq> name t) ts"
  by (induction ts) auto

lemma addTool_others:
  "\<forall>i<length (tools st). name (tools st ! i) \<noteq> name t \<longrightarrow> tools (addTool t st) ! i = tools st ! i"
  by (simp add: addTool_def nth_append)

lemma addTool_replaces:
  assumes "distinct (map name (tools st))" and "name t \<in> set (map name (tools st))"
  shows "length (tools (addTool t st)) = length (tools st)
       \<and> map name (tools (addTool t st)) = map name (tools st)
       \<and> (\<forall>i<length (tools st). name (tools st ! i) \<noteq> name t \<longrightarrow>
             tools (addTool t st) ! i = tools st ! i)
       \<and> filter (\<lambda>u. name u = name t) (tools (addTool t st)) = [t]
       \<and> distinct (map name (tools (addTool t st)))"
  using assms addTool_length [OF assms(2)] addTool_unique [OF assms(1), of t]
    addTool_others [of st t]
  by (simp add: addTool_names)

text \<open>
  Claim C4. In a registry whose tool names are unique (the empty registry is, and
  \<open>addTool\<close> keeps it so) and which holds a tool named \<open>x\<close>, adding a tool named \<open>x\<close> with
  \<^verbatim>\<open>addLocalTool\<close> leaves the number of tools and their names unchanged, leaves every
  tool with another name as it was and where it was, and the registry then holds
  exactly one tool named \<open>x\<close>: the new one, with the new description and schema, the
  origin local and the function compiled from the new code.
\<close>

theorem re_adding_a_tool_replaces_it:
  assumes "distinct (map name (tools st))"
    and "x \<in> set (map name (tools st))"
    and "addLocalTool h x descB codeB paramsB st = Done st'"
  shows "length (tools st') = length (tools st)
       \<and> map name (tools st') = map name (tools st)
       \<and> (\<forall>i<length (tools st). name (tools st ! i) \<noteq> x \<longrightarrow> tools st' ! i = tools st ! i)
       \<and> length (filter (\<lambda>u. name u = x) (tools st')) = 1
       \<and> map description (filter (\<lambda>u. name u = x) (tools st')) = [descB]
       \<and> map parameters (filter (\<lambda>u. name u = x) (tools st')) = [paramsB]
       \<and> map origin (filter (\<lambda>u. name u = x) (tools st')) = [Local]
       \<and> (\<exists>rp f. requestedParameters paramsB = Inr rp \<and> new_Function h rp codeB = Done f
             \<and> filter (\<lambda>u. name u = x) (tools st')
                 = [\<lparr>name = x, description = descB, parameters = paramsB, origin = Local,
                     execute = onExecute rp f\<rparr>])
       \<and> distinct (map name (tools st'))"
proof -
  obtain rp f where rp: "requestedParameters paramsB = Inr rp"
    and f: "new_Function h rp codeB = Done f"
    and st': "st' = addTool \<lparr>name = x, description = descB, parameters = paramsB,
                              origin = Local, execute = onExecute rp f\<rparr> st"
    using assms(3) by (rule addLocalTool_Done_tool)
  let ?b = "\<lparr>name = x, description = descB, parameters = paramsB, origin = Local,
             execute = onExecute rp f\<rparr>"
  have "name ?b \<in> set (map name (tools st))" using assms(2) by simp
  from addTool_replaces [OF assms(1) this]
  have r: "length (tools st') = length (tools st)"
    "map name (tools st') = map name (tools st)"
    "\<forall>i<length (tools st). name (tools st ! i) \<noteq> x \<longrightarrow> tools st' ! i = tools st ! i"
    "filter (\<lambda>u. name u = x) (tools st') = [?b]"
    "distinct (map name (tools st'))"
    using st' assms(1) by simp_all
  have "\<exists>rp f. requestedParameters paramsB = Inr rp \<and> new_Function h rp codeB = Done f
             \<and> filter (\<lambda>u. name u = x) (tools st')
                 = [\<lparr>name = x, description = descB, parameters = paramsB, origin = Local,
                     execute = onExecute rp f\<rparr>]"
    using rp f r(4) by blast
  then show ?thesis using r by simp
qed

text \<open>
  The theorem at the registry with five tools to which "X"/descA has been added:
  adding "X"/descB leaves six tools, the five others as they were and one "X" with
  descB.
\<close>

theorem re_adding_a_tool_replaces_it_witness:
  "(case addLocalTool (\<lambda>fs c. Inr (return_variables [])) (JStr ''X'') (JStr ''descA'')
            (JStr ''return []'') (JObj []) (registry two_providers) of
        Done st1 \<Rightarrow>
          (case addLocalTool (\<lambda>fs c. Inr (return_variables [])) (JStr ''X'') (JStr ''descB'')
                  (JStr ''return []'') (JStr ''schemaB'') st1 of
             Done st2 \<Rightarrow>
               distinct (map name (tools st1))
               \<and> JStr ''X'' \<in> set (map name (tools st1))
               \<and> map (\<lambda>t. (name t, description t, parameters t)) (tools st1)
                   = [(JStr ''clock'', JStr ''sample'', JObj []),
                      (JStr ''read'', JStr ''sample'', JObj []),
                      (JStr ''write'', JStr ''sample'', JObj []),
                      (JStr ''forecast'', JStr ''sample'', JObj []),
                      (JStr ''alerts'', JStr ''sample'', JObj []),
                      (JStr ''X'', JStr ''descA'', JObj [])]
               \<and> length (tools st2) = 6
               \<and> map name (tools st2) = map name (tools st1)
               \<and> take 5 (tools st2) = take 5 (tools st1)
               \<and> map (\<lambda>t. (description t, parameters t)) (filter (\<lambda>u. name u = JStr ''X'') (tools st2))
                   = [(JStr ''descB'', JStr ''schemaB'')]
           | Thrown e \<Rightarrow> False | Unembedded \<Rightarrow> False)
      | Thrown e \<Rightarrow> False | Unembedded \<Rightarrow> False)"
proof -
  let ?h = "\<lambda>(fs::string list) (c::jsval). (Inr (return_variables []) :: jsval + body)"
  obtain st1 where 1: "addLocalTool ?h (JStr ''X'') (JStr ''descA'') (JStr ''return []'') (JObj [])
      (registry two_providers) = Done st1"
    by (simp add: addLocalTool_def requestedParameters_def own_enumerable_def get_property_def
        Object_prototype_names_def new_Function_def formal_parameters_def trim_def is_space_def)
  obtain st2 where 2: "addLocalTool ?h (JStr ''X'') (JStr ''descB'') (JStr ''return []'')
      (JStr ''schemaB'') st1 = Done st2"
    by (simp add: addLocalTool_def requestedParameters_def own_enumerable_def get_property_def
        Object_prototype_names_def new_Function_def formal_parameters_def trim_def is_space_def)
  obtain a where a: "st1 = addTool a (registry two_providers)" "name a = JStr ''X''"
      "description a = JStr ''descA''" "parameters a = JObj []"
    using 1 by (rule addLocalTool_Done)
  have tp: "map (\<lambda>t. (name t, description t, parameters t)) (tools (registry two_providers))
      = [(JStr ''clock'', JStr ''sample'', JObj []), (JStr ''read'', JStr ''sample'', JObj []),
         (JStr ''write'', JStr ''sample'', JObj []), (JStr ''forecast'', JStr ''sample'', JObj []),
         (JStr ''alerts'', JStr ''sample'', JObj [])]"
    by (simp add: two_providers_def addMcpServer_def sample_provider_def sample_tool_def
      initial_def addTool_def)
  have names: "map name (tools (registry two_providers))
      = [JStr ''clock'', JStr ''read'', JStr ''write'', JStr ''forecast'', JStr ''alerts'']"
    using arg_cong [OF tp, of "map fst"] by (simp add: comp_def)
  have absent: "\<not> list_ex (\<lambda>u. name u = name a) (tools (registry two_providers))"
    using names a(2) present_iff [of a "tools (registry two_providers)"] by simp
  have t1: "tools st1 = tools (registry two_providers) @ [a]"
    using a(1) absent by (simp add: addTool_def)
  have all1: "map (\<lambda>t. (name t, description t, parameters t)) (tools st1)
      = [(JStr ''clock'', JStr ''sample'', JObj []), (JStr ''read'', JStr ''sample'', JObj []),
         (JStr ''write'', JStr ''sample'', JObj []), (JStr ''forecast'', JStr ''sample'', JObj []),
         (JStr ''alerts'', JStr ''sample'', JObj []), (JStr ''X'', JStr ''descA'', JObj [])]"
    using tp a(2-4) by (simp add: t1)
  have n1: "map name (tools st1)
      = [JStr ''clock'', JStr ''read'', JStr ''write'', JStr ''forecast'', JStr ''alerts'',
         JStr ''X'']"
    using names a(2) by (simp add: t1)
  have d1: "distinct (map name (tools st1))" by (simp add: n1)
  have x1: "JStr ''X'' \<in> set (map name (tools st1))" by (simp add: n1)
  have l1: "length (tools st1) = 6"
    using arg_cong [OF n1, of length] by simp
  note inst = re_adding_a_tool_replaces_it [OF d1 x1 2]
  have same: "\<forall>i<5. tools st2 ! i = tools st1 ! i"
  proof (intro allI impI)
    fix i :: nat assume i: "i < 5"
    then have "name (tools st1 ! i) = map name (tools st1) ! i" using l1 by simp
    then have "name (tools st1 ! i) \<noteq> JStr ''X''"
      using i by (auto simp: n1 nth_Cons' less_Suc_eq numeral_eq_Suc split: if_splits)
    then show "tools st2 ! i = tools st1 ! i" using inst i l1 by simp
  qed
  have tk: "take 5 (tools st2) = take 5 (tools st1)"
    using same inst l1 by (intro nth_equalityI) simp_all
  have de: "map (\<lambda>t. (description t, parameters t)) (filter (\<lambda>u. name u = JStr ''X'') (tools st2))
      = [(JStr ''descB'', JStr ''schemaB'')]"
  proof -
    obtain u where u: "filter (\<lambda>u. name u = JStr ''X'') (tools st2) = [u]"
      using inst by (auto simp: length_Suc_conv)
    then show ?thesis using inst by simp
  qed
  show ?thesis
    using 1 2 d1 x1 all1 inst l1 tk de by simp
qed

text \<open>
  Adding "X"/descA and then "X"/descB, from any registry with unique names: exactly
  one tool named "X" is left, with descB, and the tools with other names are those of
  the registry before.
\<close>

lemma add_then_add_again:
  assumes "distinct (map name (tools st))"
    and "addLocalTool h x descA codeA paramsA st = Done st1"
    and "addLocalTool h x descB codeB paramsB st1 = Done st2"
  shows "length (tools st2) = length (tools st1)
       \<and> map description (filter (\<lambda>u. name u = x) (tools st2)) = [descB]
       \<and> filter (\<lambda>u. name u \<noteq> x) (tools st2) = filter (\<lambda>u. name u \<noteq> x) (tools st)"
proof -
  obtain a where a: "st1 = addTool a st" "name a = x"
    using assms(2) by (rule addLocalTool_Done)
  obtain b where b: "st2 = addTool b st1" "name b = x" "description b = descB"
    using assms(3) by (rule addLocalTool_Done)
  have d1: "distinct (map name (tools st1))"
    using assms(1) a by (simp add: addTool_distinct)
  have present: "name b \<in> set (map name (tools st1))"
    using a b by (simp add: addTool_names)
  have keep: "\<And>t s. filter (\<lambda>u. name u \<noteq> name t) (tools (addTool t s))
      = filter (\<lambda>u. name u \<noteq> name t) (tools s)"
    by (simp add: addTool_def replace_keeps_others)
  have "filter (\<lambda>u. name u \<noteq> x) (tools st2) = filter (\<lambda>u. name u \<noteq> x) (tools st)"
    using keep [of a st] keep [of b st1] a b by simp
  then show ?thesis
    using addTool_replaces [OF d1 present] b by simp
qed

section \<open>Properties of the Provider Registry\<close>

lemma find_registered:
  "(find (\<lambda>p. server_name p = n) ps = None) \<longleftrightarrow> \<not> list_ex (\<lambda>p. server_name p = n) ps"
  by (induction ps) auto

text \<open>
  Claim C5. Removing a registered provider by name leaves in the Tool Registry exactly
  the tools that are not tagged with that provider, in their order and unchanged:
  every tool tagged with it is removed, every tool of another provider and every
  local tool stays. The other providers stay registered. Removing a name that is not
  registered changes nothing.
\<close>

theorem removing_a_provider_removes_its_tools:
  "tools (registry (removeMcpServerByName n s)) =
     (if list_ex (\<lambda>p. server_name p = n) (mcpServers s)
      then filter (\<lambda>t. origin t \<noteq> Provider n) (tools (registry s))
      else tools (registry s))
   \<and> mcpServers (removeMcpServerByName n s) = filter (\<lambda>q. server_name q \<noteq> n) (mcpServers s)"
proof (cases "find (\<lambda>p. server_name p = n) (mcpServers s)")
  case None
  then have "\<not> list_ex (\<lambda>p. server_name p = n) (mcpServers s)"
    by (simp add: find_registered)
  moreover from this have "filter (\<lambda>q. server_name q \<noteq> n) (mcpServers s) = mcpServers s"
    by (simp add: list_ex_iff filter_id_conv)
  ultimately show ?thesis using None by (simp add: removeMcpServerByName_def)
next
  case (Some p)
  then have "list_ex (\<lambda>p. server_name p = n) (mcpServers s)"
    using find_registered [of n "mcpServers s"] by simp
  then show ?thesis using Some
    by (simp add: removeMcpServerByName_def removeToolsOf_def split: prod.splits)
qed

lemma two_providers_tools:
  "map (\<lambda>t. (name t, origin t)) (tools (registry two_providers)) =
     [(JStr ''clock'', Local), (JStr ''read'', Provider (JStr ''files'')),
      (JStr ''write'', Provider (JStr ''files'')),
      (JStr ''forecast'', Provider (JStr ''weather'')),
      (JStr ''alerts'', Provider (JStr ''weather''))]"
  by (simp add: two_providers_def addMcpServer_def sample_provider_def sample_tool_def
      initial_def addTool_def)

lemma two_providers_registered:
  "map server_name (mcpServers two_providers) = [JStr ''files'', JStr ''weather'']"
  by (simp add: two_providers_def addMcpServer_def sample_provider_def sample_tool_def
      initial_def addTool_def)

text \<open>
  With a local tool and the providers \<^verbatim>\<open>files\<close> and \<^verbatim>\<open>weather\<close>, removing \<^verbatim>\<open>files\<close>
  leaves the local tool and the tools of \<^verbatim>\<open>weather\<close>.
\<close>

theorem removing_a_provider_removes_its_tools_witness:
  "map (\<lambda>t. (name t, origin t)) (tools (registry (removeMcpServerByName (JStr ''files'') two_providers)))
     = [(JStr ''clock'', Local), (JStr ''forecast'', Provider (JStr ''weather'')),
        (JStr ''alerts'', Provider (JStr ''weather''))]
   \<and> map server_name (mcpServers (removeMcpServerByName (JStr ''files'') two_providers))
     = [JStr ''weather'']"
proof -
  have r: "list_ex (\<lambda>p. server_name p = JStr ''files'') (mcpServers two_providers)"
    using two_providers_registered by (auto simp: list_ex_iff dest: arg_cong [where f = set])
  have "map (\<lambda>t. (name t, origin t))
          (filter (\<lambda>t. origin t \<noteq> Provider (JStr ''files'')) (tools (registry two_providers)))
        = filter (\<lambda>p. snd p \<noteq> Provider (JStr ''files''))
            (map (\<lambda>t. (name t, origin t)) (tools (registry two_providers)))"
    by (simp add: filter_map comp_def)
  moreover have "map server_name (filter (\<lambda>q. server_name q \<noteq> JStr ''files'') (mcpServers two_providers))
        = filter (\<lambda>n. n \<noteq> JStr ''files'') (map server_name (mcpServers two_providers))"
    by (simp add: filter_map comp_def)
  ultimately show ?thesis
    using removing_a_provider_removes_its_tools [of "JStr ''files''" two_providers] r
    by (simp add: two_providers_tools two_providers_registered)
qed


text \<open>
  Provider names stay unique: they are in the state when the module has been loaded,
  and adding and removing providers keeps them so.
\<close>

lemma initial_distinct: "distinct (map server_name (mcpServers (initial key prompt)))"
  by (simp add: initial_def)

lemma addMcpServer_distinct:
  assumes "distinct (map server_name (mcpServers s))"
  shows "distinct (map server_name (mcpServers (addMcpServer p s)))"
proof (cases "list_ex (\<lambda>q. server_name q = server_name p) (mcpServers s)")
  case True
  then show ?thesis using assms by (simp add: addMcpServer_def)
next
  case False
  then have "server_name p \<notin> set (map server_name (mcpServers s))"
    by (induction "mcpServers s") (auto simp: list_ex_iff)
  then show ?thesis using assms False by (simp add: addMcpServer_def)
qed

lemma removeMcpServerByName_distinct:
  assumes "distinct (map server_name (mcpServers s))"
  shows "distinct (map server_name (mcpServers (removeMcpServerByName n s)))"
  using assms
  by (auto simp: removeMcpServerByName_def distinct_map_filter split: option.splits prod.splits)








section \<open>Properties of the Orchestration Loop\<close>

lemma resolve_call_message:
  "resolve_call st c = Some m \<Longrightarrow>
     role m = ToolRole \<and> call_id m = Some (tc_id c) \<and> tool_name m = Some (tc_name c)"
  by (auto simp: resolve_call_def result_message_def split: sum.splits promise.splits)

lemma resolve_call_unknown:
  "find (\<lambda>t. name t = tc_name c) (tools st) = None \<Longrightarrow>
     resolve_call st c = Some (result_message c (UnknownToolError (tc_name c)))"
  by (simp add: resolve_call_def invoke_def)

lemma resolve_call_settles:
  "resolve_call st c \<noteq> None \<longleftrightarrow>
     (\<forall>t. find (\<lambda>t. name t = tc_name c) (tools st) = Some t \<longrightarrow> execute t (tc_arguments c) \<noteq> Pending)"
  by (auto simp: resolve_call_def invoke_def split: option.splits promise.splits)

lemma resolve_calls_Some:
  "(\<forall>c\<in>set cs. resolve_call st c \<noteq> None) \<Longrightarrow>
     resolve_calls st cs = Some (map (\<lambda>c. the (resolve_call st c)) cs)"
  by (induction cs) auto

lemma resolve_calls_each:
  "resolve_calls st cs = Some ms \<Longrightarrow>
     length ms = length cs \<and> (\<forall>i<length cs. resolve_call st (cs ! i) = Some (ms ! i))"
proof (induction cs arbitrary: ms)
  case Nil
  then show ?case by simp
next
  case (Cons c cs)
  then obtain m ms' where m: "resolve_call st c = Some m" "resolve_calls st cs = Some ms'"
    "ms = m # ms'"
    by (auto split: option.splits)
  then have "length ms' = length cs \<and> (\<forall>i<length cs. resolve_call st (cs ! i) = Some (ms' ! i))"
    using Cons.IH by simp
  then show ?case using m by (auto simp: nth_Cons split: nat.splits)
qed

lemma resolve_call_content:
  assumes "resolve_call st c = Some m"
  shows "(find (\<lambda>t. name t = tc_name c) (tools st) = None \<longrightarrow>
            content m = UnknownToolError (tc_name c))
       \<and> (\<forall>t v. find (\<lambda>t. name t = tc_name c) (tools st) = Some t
                \<and> execute t (tc_arguments c) = Fulfilled v \<longrightarrow> content m = Text v)
       \<and> (\<forall>t e. find (\<lambda>t. name t = tc_name c) (tools st) = Some t
                \<and> execute t (tc_arguments c) = Rejected e \<longrightarrow>
                content m = ToolExecutionError e)"
  using assms
  by (auto simp: resolve_call_def invoke_def result_message_def
      split: option.splits promise.splits)

text \<open>
  Claim C2, as amended. For a model turn that requests the tool calls \<open>cs\<close>, when every
  tool that a call names settles: the turn resolves to exactly one tool-result message
  per call, in the order of the calls, each with the role of a tool result, the id of
  its call and the name the call gave; the message of a call whose tool is in the
  registry holds what that tool did with the arguments of the call, the value it
  returned or the structured \<open>ToolExecutionError\<close> of what it threw; the message of a call
  naming a tool that is not in the registry holds the structured \<open>UnknownToolError\<close>,
  while the other calls are resolved as said; nothing is appended when the response
  arrives; and the loop returns to awaiting the model, where the next request is
  composed, only with all these messages appended to the log.
\<close>

theorem one_result_message_per_tool_call:
  assumes "\<forall>c\<in>set cs. \<forall>t. find (\<lambda>t. name t = tc_name c) (tools st) = Some t \<longrightarrow>
             execute t (tc_arguments c) \<noteq> Pending"
  shows "\<exists>ms. resolve_calls st cs = Some ms
       \<and> length ms = length cs
       \<and> map call_id ms = map (\<lambda>c. Some (tc_id c)) cs
       \<and> (\<forall>i<length cs.
             role (ms ! i) = ToolRole
             \<and> call_id (ms ! i) = Some (tc_id (cs ! i))
             \<and> tool_name (ms ! i) = Some (tc_name (cs ! i))
             \<and> (find (\<lambda>t. name t = tc_name (cs ! i)) (tools st) = None \<longrightarrow>
                   content (ms ! i) = UnknownToolError (tc_name (cs ! i)))
             \<and> (\<forall>t v. find (\<lambda>t. name t = tc_name (cs ! i)) (tools st) = Some t
                   \<and> execute t (tc_arguments (cs ! i)) = Fulfilled v \<longrightarrow>
                   content (ms ! i) = Text v)
             \<and> (\<forall>t e. find (\<lambda>t. name t = tc_name (cs ! i)) (tools st) = Some t
                   \<and> execute t (tc_arguments (cs ! i)) = Rejected e \<longrightarrow>
                   content (ms ! i) = ToolExecutionError e))
       \<and> (be lg (tool_specs st) = ToolCalls cs \<longrightarrow>
             loop_step be st (AwaitingModel, lg) = Some (ExecutingTools cs, lg))
       \<and> loop_step be st (ExecutingTools cs, lg) = Some (AwaitingModel, lg @ ms)"
proof -
  have "\<forall>c\<in>set cs. resolve_call st c \<noteq> None"
    using assms resolve_call_settles by blast
  then obtain ms where ms: "resolve_calls st cs = Some ms"
    using resolve_calls_Some by blast
  then have len: "length ms = length cs"
    and each: "\<forall>i<length cs. resolve_call st (cs ! i) = Some (ms ! i)"
    using resolve_calls_each by blast+
  have msg: "\<forall>i<length cs. role (ms ! i) = ToolRole \<and> call_id (ms ! i) = Some (tc_id (cs ! i))
      \<and> tool_name (ms ! i) = Some (tc_name (cs ! i))"
    using each resolve_call_message by blast
  have ids: "map call_id ms = map (\<lambda>c. Some (tc_id c)) cs"
    using len msg by (simp add: list_eq_iff_nth_eq)
  have all: "\<forall>i<length cs.
             role (ms ! i) = ToolRole
             \<and> call_id (ms ! i) = Some (tc_id (cs ! i))
             \<and> tool_name (ms ! i) = Some (tc_name (cs ! i))
             \<and> (find (\<lambda>t. name t = tc_name (cs ! i)) (tools st) = None \<longrightarrow>
                   content (ms ! i) = UnknownToolError (tc_name (cs ! i)))
             \<and> (\<forall>t v. find (\<lambda>t. name t = tc_name (cs ! i)) (tools st) = Some t
                   \<and> execute t (tc_arguments (cs ! i)) = Fulfilled v \<longrightarrow>
                   content (ms ! i) = Text v)
             \<and> (\<forall>t e. find (\<lambda>t. name t = tc_name (cs ! i)) (tools st) = Some t
                   \<and> execute t (tc_arguments (cs ! i)) = Rejected e \<longrightarrow>
                   content (ms ! i) = ToolExecutionError e)"
  proof (intro allI impI)
    fix i assume i: "i < length cs"
    have r: "resolve_call st (cs ! i) = Some (ms ! i)" using each i by simp
    show "role (ms ! i) = ToolRole
             \<and> call_id (ms ! i) = Some (tc_id (cs ! i))
             \<and> tool_name (ms ! i) = Some (tc_name (cs ! i))
             \<and> (find (\<lambda>t. name t = tc_name (cs ! i)) (tools st) = None \<longrightarrow>
                   content (ms ! i) = UnknownToolError (tc_name (cs ! i)))
             \<and> (\<forall>t v. find (\<lambda>t. name t = tc_name (cs ! i)) (tools st) = Some t
                   \<and> execute t (tc_arguments (cs ! i)) = Fulfilled v \<longrightarrow>
                   content (ms ! i) = Text v)
             \<and> (\<forall>t e. find (\<lambda>t. name t = tc_name (cs ! i)) (tools st) = Some t
                   \<and> execute t (tc_arguments (cs ! i)) = Rejected e \<longrightarrow>
                   content (ms ! i) = ToolExecutionError e)"
      using msg i resolve_call_content [OF r] by blast
  qed
  have step: "loop_step be st (ExecutingTools cs, lg) = Some (AwaitingModel, lg @ ms)"
    using ms by simp
  have first: "be lg (tool_specs st) = ToolCalls cs \<longrightarrow>
             loop_step be st (AwaitingModel, lg) = Some (ExecutingTools cs, lg)"
    by simp
  from ms len ids all first step show ?thesis by blast
qed

lemma sample_registry_tools:
  "map name (tools sample_registry)
     = [JStr ''clock'', JStr ''read'', JStr ''write'', JStr ''forecast'', JStr ''alerts'',
        JStr ''broken'']"
  by (simp add: sample_registry_def failing_tool_def two_providers_def addMcpServer_def
      sample_provider_def sample_tool_def initial_def addTool_def)

lemma sample_calls_resolved:
  "resolve_calls sample_registry sample_calls =
     Some [\<lparr>role = ToolRole,
            content = Text (JObj [(''tool'', JStr ''clock''),
                                  (''arguments'', JObj [(''zone'', JStr ''UTC'')])]),
            call_id = Some ''call_1'', tool_name = Some (JStr ''clock'')\<rparr>,
           \<lparr>role = ToolRole, content = UnknownToolError (JStr ''nope''),
            call_id = Some ''call_2'', tool_name = Some (JStr ''nope'')\<rparr>,
           \<lparr>role = ToolRole, content = ToolExecutionError (JError ''Error'' ''boom''),
            call_id = Some ''call_3'', tool_name = Some (JStr ''broken'')\<rparr>,
           \<lparr>role = ToolRole,
            content = Text (JObj [(''tool'', JStr ''forecast''),
                                  (''arguments'', JObj [(''city'', JStr ''Oslo'')])]),
            call_id = Some ''call_4'', tool_name = Some (JStr ''forecast'')\<rparr>]"
  by (simp add: sample_calls_def sample_registry_def failing_tool_def two_providers_def
      addMcpServer_def sample_provider_def sample_tool_def initial_def addTool_def
      resolve_call_def invoke_def result_message_def)

text \<open>
  The theorem at a turn of four calls: a local tool, an unknown tool, a tool that
  throws and a provider's tool.
\<close>

theorem one_result_message_per_tool_call_witness:
  "list_all (\<lambda>c. resolve_call sample_registry c \<noteq> None) sample_calls
   \<and> (\<exists>ms. resolve_calls sample_registry sample_calls = Some ms
         \<and> length ms = 4
         \<and> map call_id ms = [Some ''call_1'', Some ''call_2'', Some ''call_3'', Some ''call_4'']
         \<and> map content ms
             = [Text (JObj [(''tool'', JStr ''clock''),
                            (''arguments'', JObj [(''zone'', JStr ''UTC'')])]),
                UnknownToolError (JStr ''nope''),
                ToolExecutionError (JError ''Error'' ''boom''),
                Text (JObj [(''tool'', JStr ''forecast''),
                            (''arguments'', JObj [(''city'', JStr ''Oslo'')])])]
         \<and> loop_step (\<lambda>lg specs. ToolCalls sample_calls) sample_registry
              (ExecutingTools sample_calls, []) = Some (AwaitingModel, ms))"
proof -
  have h: "\<forall>c\<in>set sample_calls. \<forall>t.
       find (\<lambda>t. name t = tc_name c) (tools sample_registry) = Some t \<longrightarrow>
       execute t (tc_arguments c) \<noteq> Pending"
    by (simp add: sample_calls_def sample_registry_def failing_tool_def two_providers_def
      addMcpServer_def sample_provider_def sample_tool_def initial_def addTool_def)
  obtain ms where ms: "resolve_calls sample_registry sample_calls = Some ms"
    and len: "length ms = length sample_calls"
    and ids: "map call_id ms = map (\<lambda>c. Some (tc_id c)) sample_calls"
    and step: "loop_step (\<lambda>lg specs. ToolCalls sample_calls) sample_registry
              (ExecutingTools sample_calls, []) = Some (AwaitingModel, [] @ ms)"
    using one_result_message_per_tool_call [OF h,
        of "\<lambda>lg specs. ToolCalls sample_calls" "[]"] by blast
  have "map content ms
      = [Text (JObj [(''tool'', JStr ''clock''), (''arguments'', JObj [(''zone'', JStr ''UTC'')])]),
         UnknownToolError (JStr ''nope''),
         ToolExecutionError (JError ''Error'' ''boom''),
         Text (JObj [(''tool'', JStr ''forecast''),
                     (''arguments'', JObj [(''city'', JStr ''Oslo'')])])]"
    using ms sample_calls_resolved by auto
  moreover have "list_all (\<lambda>c. resolve_call sample_registry c \<noteq> None) sample_calls"
    using h resolve_call_settles by (simp add: list_all_iff)
  ultimately show ?thesis using ms len ids step by (simp add: sample_calls_def)
qed

text \<open>
  Claim C2 as stated fails for a turn in which a tool never settles: the loop waits
  for all results of the turn, so the turn does not complete, no tool-result message
  is appended, not even for the sibling call that has settled, and no next model
  request is issued.
\<close>

theorem pending_tool_counterexample:
  "resolve_call (addTool pending_tool (registry two_providers))
      \<lparr>tc_id = ''call_1'', tc_name = JStr ''clock'', tc_arguments = ArgObject []\<rparr>
     = Some \<lparr>role = ToolRole,
              content = Text (JObj [(''tool'', JStr ''clock''), (''arguments'', JObj [])]),
              call_id = Some ''call_1'', tool_name = Some (JStr ''clock'')\<rparr>
   \<and> resolve_calls (addTool pending_tool (registry two_providers))
       [\<lparr>tc_id = ''call_1'', tc_name = JStr ''clock'', tc_arguments = ArgObject []\<rparr>,
        \<lparr>tc_id = ''call_2'', tc_name = JStr ''stuck'', tc_arguments = ArgObject []\<rparr>]
     = None
   \<and> loop_step (\<lambda>lg specs. FinalAnswer JNull) (addTool pending_tool (registry two_providers))
       (ExecutingTools
          [\<lparr>tc_id = ''call_1'', tc_name = JStr ''clock'', tc_arguments = ArgObject []\<rparr>,
           \<lparr>tc_id = ''call_2'', tc_name = JStr ''stuck'', tc_arguments = ArgObject []\<rparr>], [])
     = None"
  by (simp add: pending_tool_def two_providers_def addMcpServer_def sample_provider_def
      sample_tool_def initial_def addTool_def resolve_call_def invoke_def result_message_def)

text \<open>
  A compiled tool whose body throws an \<^verbatim>\<open>Error\<close>: the turn goes on, and the tool-result
  message of the call carries the JSON text of the structured failure.
\<close>

lemma thrown_Error_is_appended:
  assumes "find (\<lambda>t. name t = tc_name c) (tools st) = Some t"
    and "execute t = onExecute rp f"
    and "map_arguments (tc_arguments c) rp = Inr vs"
    and "behaviour f (bind (formals f) vs) = Rejected (JError n m)"
    and "resolve_calls st cs = Some ms"
  shows "loop_step be st (ExecutingTools (c # cs), lg) =
     Some (AwaitingModel,
           lg @ result_message c
                  (Text (JStr (''{'' @ json_quote ''success'' @ '':false,''
                               @ json_quote ''errorMessage'' @ '':'' @ json_quote m @ ''}'')))
                # ms)"
  using assms onExecute_catches_Error [OF assms(3,4)]
  by (simp add: resolve_call_def invoke_def)

section \<open>Properties of the request handlers\<close>

lemma absent_field_is_missing:
  "k \<in> set ks \<Longrightarrow> map_of body k = None \<Longrightarrow> k \<notin> set Object_prototype_names \<Longrightarrow>
     missing ks body"
  by (auto simp: missing_def list_ex_iff get_property_def)

text \<open>
  Claim C9, as amended. On \<^verbatim>\<open>POST /api/tools\<close>, \<^verbatim>\<open>DELETE /api/tools\<close>,
  \<^verbatim>\<open>POST /api/config\<close>, \<^verbatim>\<open>POST /api/mcp-servers\<close> and \<^verbatim>\<open>DELETE /api/mcp-servers\<close>, a
  request whose body lacks a required field (the field is absent or falsy) is
  answered 400 "Missing required fields" and the state is the one before the request:
  no store is changed and nothing of the core is called.
\<close>

theorem missing_fields_are_rejected:
  "(missing [''name'', ''description'', ''code'', ''parameters''] body \<longrightarrow>
      post_tools h body s = (Reply 400 missing_required_fields, s))
   \<and> (missing [''name''] body \<longrightarrow>
      delete_tools body s = (Reply 400 missing_required_fields, s))
   \<and> (missing [''systemPrompt'', ''model'', ''endpoint''] body \<longrightarrow>
      post_config body s = (Reply 400 missing_required_fields, s))
   \<and> (missing [''name'', ''command'', ''args''] body \<longrightarrow>
      post_mcp_servers bootstrap body s = (Reply 400 missing_required_fields, s))
   \<and> (missing [''name''] body \<longrightarrow>
      delete_mcp_servers body s = (Reply 400 missing_required_fields, s))"
  by (simp add: post_tools_def delete_tools_def post_config_def post_mcp_servers_def
      delete_mcp_servers_def)

text \<open>The theorem at one rejected body for each of the five routes.\<close>

theorem missing_fields_are_rejected_witness:
  "missing [''name'', ''description'', ''code'', ''parameters'']
      [(''name'', JStr ''t''), (''description'', JStr ''''), (''code'', JStr ''return 1'')]
   \<and> missing [''name''] []
   \<and> missing [''systemPrompt'', ''model'', ''endpoint''] [(''model'', JStr ''gpt-4o'')]
   \<and> missing [''name'', ''command'', ''args''] [(''name'', JStr ''files''), (''command'', JNull)]
   \<and> post_tools (\<lambda>fs c. Inr (return_variables []))
        [(''name'', JStr ''t''), (''description'', JStr ''''), (''code'', JStr ''return 1'')]
        two_providers = (Reply 400 missing_required_fields, two_providers)
   \<and> delete_tools [] two_providers = (Reply 400 missing_required_fields, two_providers)
   \<and> post_config [(''model'', JStr ''gpt-4o'')] two_providers
        = (Reply 400 missing_required_fields, two_providers)
   \<and> post_mcp_servers (\<lambda>n c a. Inr (sample_provider ''files'' []))
        [(''name'', JStr ''files''), (''command'', JNull)] two_providers
        = (Reply 400 missing_required_fields, two_providers)
   \<and> delete_mcp_servers [] two_providers = (Reply 400 missing_required_fields, two_providers)"
proof -
  have 1: "missing [''name'', ''description'', ''code'', ''parameters'']
      [(''name'', JStr ''t''), (''description'', JStr ''''), (''code'', JStr ''return 1'')]"
    by (simp add: missing_def get_property_def)
  have 2: "missing [''name''] []"
    by (simp add: missing_def get_property_def Object_prototype_names_def)
  have 3: "missing [''systemPrompt'', ''model'', ''endpoint''] [(''model'', JStr ''gpt-4o'')]"
    by (simp add: missing_def get_property_def Object_prototype_names_def)
  have 4: "missing [''name'', ''command'', ''args''] [(''name'', JStr ''files''), (''command'', JNull)]"
    by (simp add: missing_def get_property_def)
  show ?thesis
    using missing_fields_are_rejected [of
        "[(''name'', JStr ''t''), (''description'', JStr ''''), (''code'', JStr ''return 1'')]"
        "\<lambda>fs c. Inr (return_variables [])" two_providers]
      missing_fields_are_rejected [of "[]" "\<lambda>fs c. Inr (return_variables [])" two_providers]
      missing_fields_are_rejected [of "[(''model'', JStr ''gpt-4o'')]"
        "\<lambda>fs c. Inr (return_variables [])" two_providers]
      missing_fields_are_rejected [of "[(''name'', JStr ''files''), (''command'', JNull)]"
        "\<lambda>fs c. Inr (return_variables [])" two_providers
        "\<lambda>n c a. Inr (sample_provider ''files'' [])"]
      1 2 3 4
    by simp
qed

text \<open>
  Claim C9 as stated fails. The guards test that a field is there, not what it is:
  \<^verbatim>\<open>POST /api/tools\<close> with the string \<^verbatim>\<open>oops\<close> for \<^verbatim>\<open>parameters\<close> is answered 200 and
  registers a tool. \<^verbatim>\<open>POST /api/messages\<close> has no guard: with the empty body it
  hands \<^verbatim>\<open>undefined\<close> to \<^verbatim>\<open>sendMessage\<close>, here the stand-in that appends the user
  message.
\<close>

theorem unvalidated_requests_counterexample:
  "(case post_tools (\<lambda>fs c. Inr (return_variables []))
           [(''name'', JStr ''t''), (''description'', JStr ''d''), (''code'', JStr ''return []''),
            (''parameters'', JStr ''oops'')]
           (on_listening (initial JUndefined (JStr ''prompt''))) of
      (r, s') \<Rightarrow>
        r = Reply 200 status_ok
        \<and> map (\<lambda>t. (name t, parameters t)) (tools (registry s')) = [(JStr ''t'', JStr ''oops'')])
   \<and> (case post_messages append_user_message []
           (on_listening (initial JUndefined (JStr ''prompt''))) of
      (r, s') \<Rightarrow>
        r = Reply 200 status_ok
        \<and> map (\<lambda>m. (role m, content m)) (messages s')
            = [(System, Text (JStr ''prompt'')), (User, Text JUndefined)])"
  by (simp add: post_tools_def post_messages_def missing_def get_property_def
      Object_prototype_names_def addLocalTool_def requestedParameters_def own_enumerable_def
      new_Function_def formal_parameters_def trim_def is_space_def addTool_def
      append_user_message_def on_listening_def initial_def setupEventListeners_def
      addSystemPrompt_def addMessage_def)

end
